theory Spec2Isabelle
  imports Main "HOL-Library.Sublist" "HOL-Library.Char_ord" "HOL-Library.List_Lexorder"
begin

section \<open>Run storage gateway (\<^verbatim>\<open>src/ocr/services/storage.py\<close>)\<close>

text \<open>
  The class \<^verbatim>\<open>RunStorage\<close> is embedded with explicit state passing. A method of the
  class becomes a function that takes the object's fields and the filesystem, and returns
  its outcome (an error or a value) together with the filesystem it leaves behind. An
  exception of the source is the left injection of a sum, so the state at a \<^verbatim>\<open>raise\<close>
  is as observable as the state at a \<^verbatim>\<open>return\<close>.
\<close>

subsection \<open>Paths (\<^verbatim>\<open>pathlib\<close>, POSIX flavour)\<close>

text \<open>
  The constructor of \<^verbatim>\<open>RunStorage\<close> refuses a relative \<^verbatim>\<open>base_dir\<close> or \<^verbatim>\<open>pdf_path\<close>,
  and every other path of the class is built by joining onto those two, so every path the
  gateway handles is absolute. A path is the list of its components below the root
  \<^verbatim>\<open>/\<close>, as \<^verbatim>\<open>PurePosixPath.parts[1:]\<close> gives them. Strings are byte strings
  (UTF-8), and the root \<^verbatim>\<open>//\<close> of POSIX is identified with \<^verbatim>\<open>/\<close>.
\<close>

type_synonym path = "string list"

text \<open>\<^verbatim>\<open>str.split(sep)\<close> for a one-character separator.\<close>

fun split_on :: "char \<Rightarrow> string \<Rightarrow> string list" where
  "split_on d [] = [[]]"
| "split_on d (c # cs) =
     (if c = d then [] # split_on d cs
      else (case split_on d cs of
              [] \<Rightarrow> [[c]]
            | w # ws \<Rightarrow> (c # w) # ws))"

text \<open>
  The components \<^verbatim>\<open>pathlib\<close> keeps of a string: it splits at \<^verbatim>\<open>/\<close> and drops the empty
  components and the components \<^verbatim>\<open>.\<close>; a component \<^verbatim>\<open>..\<close> is kept as it is.
\<close>

definition parse_parts :: "string \<Rightarrow> path" where
  "parse_parts s = filter (\<lambda>x. x \<noteq> [] \<and> x \<noteq> ''.'') (split_on (CHR ''/'') s)"

text \<open>
  \<^verbatim>\<open>path / s\<close>: a string that starts with \<^verbatim>\<open>/\<close> replaces the path, any other string
  is appended component by component.
\<close>

definition truediv :: "path \<Rightarrow> string \<Rightarrow> path" where
  "truediv p s =
     (if s \<noteq> [] \<and> hd s = CHR ''/'' then parse_parts s else p @ parse_parts s)"

text \<open>
  The location a path names once the operating system has walked it: \<^verbatim>\<open>..\<close> steps to
  the parent, and the parent of the root is the root. Symbolic links are not modelled, so
  the walk is the lexical one of \<^verbatim>\<open>os.path.normpath\<close>: a \<^verbatim>\<open>..\<close> after a component
  that is missing or is a file does not fail here as it does on disk. The gateway builds
  such a path only when \<^verbatim>\<open>base_dir\<close> or \<^verbatim>\<open>pdf_path\<close> contains one.
\<close>

definition normpath :: "path \<Rightarrow> path" where
  "normpath p = foldl (\<lambda>acc c. if c = ''..'' then butlast acc else acc @ [c]) [] p"

text \<open>\<^verbatim>\<open>str(path)\<close>.\<close>

definition path_str :: "path \<Rightarrow> string" where
  "path_str p = (if p = [] then ''/'' else concat (map (\<lambda>c. CHR ''/'' # c) p))"

text \<open>
  \<^verbatim>\<open>PurePath.stem\<close>: the last component without its suffix; the suffix starts at the
  last dot, unless that dot is the first or the last character of the name.
\<close>

definition rfind_dot :: "string \<Rightarrow> nat option" where
  "rfind_dot name =
     (case filter (\<lambda>i. name ! i = CHR ''.'') (rev [0..<length name]) of
        [] \<Rightarrow> None
      | i # _ \<Rightarrow> Some i)"

definition stem :: "path \<Rightarrow> string" where
  "stem p =
     (let name = (if p = [] then [] else last p)
      in case rfind_dot name of
           None \<Rightarrow> name
         | Some i \<Rightarrow> if 0 < i \<and> i + 1 < length name then take i name else name)"

subsection \<open>Integer formatting (\<^verbatim>\<open>{n:04d}\<close>)\<close>

definition digit_char :: "nat \<Rightarrow> char" where
  "digit_char d = ''0123456789'' ! (d mod 10)"

text \<open>\<^verbatim>\<open>str(n)\<close> for a natural number: its decimal digits, most significant first.\<close>

fun str_nat :: "nat \<Rightarrow> string" where
  "str_nat n = (if n < 10 then [digit_char n] else str_nat (n div 10) @ [digit_char (n mod 10)])"

declare str_nat.simps [simp del]

definition zfill :: "nat \<Rightarrow> string \<Rightarrow> string" where
  "zfill w s = replicate (w - length s) (CHR ''0'') @ s"

text \<open>
  The format specification \<^verbatim>\<open>04d\<close>: minimum width 4, padded with zeros between the
  sign and the digits. The sign of a negative number counts in the width, and a number
  with more digits than the width is printed in full.

  CPython refuses to convert an \<^verbatim>\<open>int\<close> of more than \<^verbatim>\<open>sys.get_int_max_str_digits()\<close>
  digits, 4300 unless configured otherwise: the f-string raises a \<^verbatim>\<open>ValueError\<close>.
  \<open>fmt04d\<close> is the conversion within that limit; a statement about a formatted number
  that the limit could reach carries the bound \<open>str_digits n \<le> int_max_str_digits\<close>.
\<close>

definition int_max_str_digits :: nat where
  "int_max_str_digits = 4300"

definition str_digits :: "int \<Rightarrow> nat" where
  "str_digits n = length (str_nat (nat \<bar>n\<bar>))"

definition fmt04d :: "int \<Rightarrow> string" where
  "fmt04d n =
     (if n < 0 then CHR ''-'' # zfill 3 (str_nat (nat (- n))) else zfill 4 (str_nat (nat n)))"

subsection \<open>Errors\<close>

text \<open>
  The exceptions the gateway raises itself (\<^verbatim>\<open>ValueError\<close>, \<^verbatim>\<open>AttributeError\<close> and
  \<^verbatim>\<open>FileNotFoundError\<close>, each with its message) and the ones the filesystem calls
  raise. \<^verbatim>\<open>FileNotFoundError\<close> is one Python class for both uses; the operating
  system's has the empty message here.
\<close>

datatype error =
    ValueError string
  | AttributeError string
  | TypeError
  | FileNotFoundError string
  | FileExistsError
  | NotADirectoryError
  | IsADirectoryError
  | PermissionError
  | SameFileError
  | OSError nat

text \<open>The subclasses of \<^verbatim>\<open>OSError\<close>: what the spec calls a filesystem error.\<close>

fun is_os_error :: "error \<Rightarrow> bool" where
  "is_os_error (ValueError m) = False"
| "is_os_error (AttributeError m) = False"
| "is_os_error TypeError = False"
| "is_os_error e = True"

fun is_file_not_found :: "error \<Rightarrow> bool" where
  "is_file_not_found (FileNotFoundError m) = True"
| "is_file_not_found e = False"

subsection \<open>The filesystem\<close>

text \<open>
  The calls below are those of Python's standard library and of the operating system, not
  code of the repository; they are modelled after their documented POSIX behaviour, as far
  as the gateway depends on it.
  The filesystem is a tree of directories and regular files, keyed by walked paths, with
  the root always a directory. \<open>refuse\<close> stands for what the environment may deny at a
  path, and the error it answers with. A path can be unreachable (a name longer than the
  filesystem allows, a directory that may not be searched): then every system call on it
  fails, the \<^verbatim>\<open>stat\<close> of an existence check included. Or it can be unwritable (no write
  permission, a full disk): then creating or writing there fails and a \<^verbatim>\<open>stat\<close> does
  not. \<open>calls\<close> is the log of the system calls made so far, so that "without touching
  the filesystem" is a statement about the state.
\<close>

datatype refusal = Unreachable error | Unwritable error

datatype node = Dir | File string

datatype syscall = Mkdir path | Stat path | Open path | Copy path path

record filesystem =
  nodes :: "path \<rightharpoonup> node"
  refuse :: "path \<Rightarrow> refusal option"
  calls :: "syscall list"

definition lookup :: "filesystem \<Rightarrow> path \<Rightarrow> node option" where
  "lookup fs p = (let q = normpath p in if q = [] then Some Dir else nodes fs q)"

definition logged :: "syscall \<Rightarrow> filesystem \<Rightarrow> filesystem" where
  "logged c fs = fs\<lparr>calls := calls fs @ [c]\<rparr>"

text \<open>
  Creating or replacing the regular file at \<open>p\<close>, as \<^verbatim>\<open>open(p, "wb")\<close> followed by a
  write does: the parent must be a directory and \<open>p\<close> must not be one.
\<close>

definition put_file :: "filesystem \<Rightarrow> path \<Rightarrow> string \<Rightarrow> (error + unit) \<times> filesystem" where
  "put_file fs p data =
     (let q = normpath p in
      if q = [] then (Inl IsADirectoryError, fs)
      else (case lookup fs (butlast q) of
              None \<Rightarrow> (Inl (FileNotFoundError []), fs)
            | Some (File x) \<Rightarrow> (Inl NotADirectoryError, fs)
            | Some Dir \<Rightarrow>
                (case refuse fs q of
                   Some (Unreachable e) \<Rightarrow> (Inl e, fs)
                 | Some (Unwritable e) \<Rightarrow>
                     if nodes fs q = Some Dir then (Inl IsADirectoryError, fs) else (Inl e, fs)
                 | None \<Rightarrow>
                     if nodes fs q = Some Dir then (Inl IsADirectoryError, fs)
                     else (Inr (), fs\<lparr>nodes := (nodes fs)(q \<mapsto> File data)\<rparr>))))"

text \<open>\<^verbatim>\<open>os.mkdir(p)\<close>.\<close>

definition os_mkdir :: "filesystem \<Rightarrow> path \<Rightarrow> (error + unit) \<times> filesystem" where
  "os_mkdir fs0 p =
     (let fs = logged (Mkdir p) fs0; q = normpath p in
      if q = [] then (Inl FileExistsError, fs)
      else (case lookup fs (butlast q) of
              None \<Rightarrow> (Inl (FileNotFoundError []), fs)
            | Some (File x) \<Rightarrow> (Inl NotADirectoryError, fs)
            | Some Dir \<Rightarrow>
                (case refuse fs q of
                   Some (Unreachable e) \<Rightarrow> (Inl e, fs)
                 | Some (Unwritable e) \<Rightarrow>
                     if nodes fs q \<noteq> None then (Inl FileExistsError, fs) else (Inl e, fs)
                 | None \<Rightarrow>
                     if nodes fs q \<noteq> None then (Inl FileExistsError, fs)
                     else (Inr (), fs\<lparr>nodes := (nodes fs)(q \<mapsto> Dir)\<rparr>))))"

text \<open>\<^verbatim>\<open>os.stat(p)\<close>: the node at the path, or the error.\<close>

definition os_stat :: "filesystem \<Rightarrow> path \<Rightarrow> error + node" where
  "os_stat fs p =
     (case refuse fs (normpath p) of
        Some (Unreachable e) \<Rightarrow> Inl e
      | Some (Unwritable e) \<Rightarrow>
          (case lookup fs p of None \<Rightarrow> Inl (FileNotFoundError []) | Some n \<Rightarrow> Inr n)
      | None \<Rightarrow>
          (case lookup fs p of None \<Rightarrow> Inl (FileNotFoundError []) | Some n \<Rightarrow> Inr n))"

text \<open>
  \<^verbatim>\<open>Path.exists()\<close> and \<^verbatim>\<open>Path.is_dir()\<close>, as \<^verbatim>\<open>pathlib\<close> writes them up to
  Python 3.12: one \<^verbatim>\<open>stat\<close> each; an \<^verbatim>\<open>OSError\<close> with one of the error numbers
  \<^verbatim>\<open>ENOENT\<close>, \<^verbatim>\<open>ENOTDIR\<close>, \<^verbatim>\<open>EBADF\<close> (9) and \<^verbatim>\<open>ELOOP\<close> (40) is answered with
  \<^verbatim>\<open>False\<close>, and any other is raised again.
\<close>

fun ignore_error :: "error \<Rightarrow> bool" where
  "ignore_error (FileNotFoundError m) = True"
| "ignore_error NotADirectoryError = True"
| "ignore_error (OSError n) = (n = 9 \<or> n = 40)"
| "ignore_error e = False"

definition path_exists :: "filesystem \<Rightarrow> path \<Rightarrow> (error + bool) \<times> filesystem" where
  "path_exists fs p =
     (case os_stat fs p of
        Inl e \<Rightarrow> if ignore_error e then (Inr False, logged (Stat p) fs)
                 else (Inl e, logged (Stat p) fs)
      | Inr n \<Rightarrow> (Inr True, logged (Stat p) fs))"

definition path_is_dir :: "filesystem \<Rightarrow> path \<Rightarrow> (error + bool) \<times> filesystem" where
  "path_is_dir fs p =
     (case os_stat fs p of
        Inl e \<Rightarrow> if ignore_error e then (Inr False, logged (Stat p) fs)
                 else (Inl e, logged (Stat p) fs)
      | Inr n \<Rightarrow> (Inr (n = Dir), logged (Stat p) fs))"

text \<open>The error those two methods raise on a path, if any.\<close>

definition stat_error :: "filesystem \<Rightarrow> path \<Rightarrow> error option" where
  "stat_error fs p =
     (case os_stat fs p of
        Inl e \<Rightarrow> if ignore_error e then None else Some e
      | Inr n \<Rightarrow> None)"

text \<open>\<^verbatim>\<open>Path.write_bytes(data)\<close> and \<^verbatim>\<open>Path.write_text(data, encoding="utf-8")\<close>.\<close>

definition write_file :: "filesystem \<Rightarrow> path \<Rightarrow> string \<Rightarrow> (error + unit) \<times> filesystem" where
  "write_file fs p data = put_file (logged (Open p) fs) p data"

text \<open>
  \<^verbatim>\<open>shutil.copy2(src, dst)\<close>: the source must be a regular file; a destination that is
  a directory receives the file under the source's name. File metadata is not modelled.
\<close>

definition copy2 :: "filesystem \<Rightarrow> path \<Rightarrow> path \<Rightarrow> (error + unit) \<times> filesystem" where
  "copy2 fs0 src dst =
     (let fs = logged (Copy src dst) fs0;
          dst' = (if lookup fs dst = Some Dir then dst @ [if src = [] then [] else last src] else dst)
      in if normpath src = normpath dst' \<and> lookup fs src \<noteq> None then (Inl SameFileError, fs)
         else (case lookup fs src of
                 None \<Rightarrow> (Inl (FileNotFoundError []), fs)
               | Some Dir \<Rightarrow> (Inl IsADirectoryError, fs)
               | Some (File data) \<Rightarrow> put_file fs dst' data))"

text \<open>
  \<^verbatim>\<open>Path.mkdir(parents, exist_ok)\<close>, as \<^verbatim>\<open>pathlib\<close> writes it: try \<^verbatim>\<open>os.mkdir\<close>; on
  \<^verbatim>\<open>FileNotFoundError\<close> with \<^verbatim>\<open>parents\<close> set, create the parent (with both flags set)
  and try once more without \<^verbatim>\<open>parents\<close>; on any other \<^verbatim>\<open>OSError\<close>, swallow it only
  if \<^verbatim>\<open>exist_ok\<close> is set and the path is a directory. An error of \<^verbatim>\<open>is_dir\<close>
  itself replaces the one being handled.
\<close>

function path_mkdir :: "filesystem \<Rightarrow> path \<Rightarrow> bool \<Rightarrow> bool \<Rightarrow> (error + unit) \<times> filesystem" where
  "path_mkdir fs p parents exist_ok =
     (case os_mkdir fs p of
        (Inr u, fs1) \<Rightarrow> (Inr u, fs1)
      | (Inl e, fs1) \<Rightarrow>
          if is_file_not_found e then
            (if \<not> parents \<or> p = [] then (Inl e, fs1)
             else (case path_mkdir fs1 (butlast p) True True of
                     (Inl e', fs2) \<Rightarrow> (Inl e', fs2)
                   | (Inr u, fs2) \<Rightarrow> path_mkdir fs2 p False exist_ok))
          else if \<not> exist_ok then (Inl e, fs1)
          else (case path_is_dir fs1 p of
                  (Inl e', fs2) \<Rightarrow> (Inl e', fs2)
                | (Inr d, fs2) \<Rightarrow> if d then (Inr (), fs2) else (Inl e, fs2)))"
  by pat_completeness auto
termination
  by (relation "measure (\<lambda>(fs, p, parents, exist_ok). 2 * length p + (if parents then 1 else 0))")
     auto

declare path_mkdir.simps [simp del]

subsection \<open>The gateway\<close>

text \<open>
  The fields of a \<^verbatim>\<open>RunStorage\<close> object. \<open>None\<close> is Python's \<^verbatim>\<open>None\<close>: the three
  directories are unset until \<^verbatim>\<open>create_run_dir\<close> assigns them.
\<close>

record run_storage =
  base_dir :: path
  pdf_path :: path
  run_dir :: "path option"
  pages_dir :: "path option"
  batches_dir :: "path option"

text \<open>\<^verbatim>\<open>__init__\<close>, for the absolute paths it accepts.\<close>

definition init_storage :: "path \<Rightarrow> path \<Rightarrow> run_storage" where
  "init_storage base pdf =
     \<lparr>base_dir = base, pdf_path = pdf, run_dir = None, pages_dir = None, batches_dir = None\<rparr>"

definition not_initialized :: error where
  "not_initialized = AttributeError ''Run directory not initialized. Call create_run_dir() first.''"

text \<open>
  \<^verbatim>\<open>_validate_batch_id\<close>: \<open>None\<close> when the identifier is accepted, otherwise the
  error raised. The source tests code points and the model tests bytes; the two agree,
  because every byte of a UTF-8 encoded character outside ASCII is outside ASCII.
\<close>

definition allowed :: "char set" where
  "allowed = set ''0123456789-''"

definition validate_batch_id :: "string \<Rightarrow> error option" where
  "validate_batch_id batch_id =
     (if batch_id = [] \<or> CHR ''-'' \<notin> set batch_id then
        Some (ValueError (''batch_id must contain at least one dash, e.g., '0000-0002'' @ [CHR 0x27]))
      else if \<exists>ch \<in> set batch_id. ch \<notin> allowed then
        Some (ValueError ''batch_id may contain only digits and dashes'')
      else None)"

text \<open>
  \<^verbatim>\<open>create_run_dir\<close>. \<open>dir_name\<close> is the reading of the clock,
  \<^verbatim>\<open>datetime.now().strftime("%d_%m_%Y-%H_%M_%S")\<close>, taken as an input. The three
  fields are assigned after the last call that can fail.
\<close>

definition create_run_dir ::
  "string \<Rightarrow> run_storage \<Rightarrow> filesystem \<Rightarrow> (error + path) \<times> run_storage \<times> filesystem" where
  "create_run_dir dir_name self fs0 =
     (case path_mkdir fs0 (base_dir self) True True of
        (Inl e, fs1) \<Rightarrow> (Inl e, self, fs1)
      | (Inr u1, fs1) \<Rightarrow>
     let run_dir_abs = truediv (base_dir self) dir_name in
     (case path_mkdir fs1 run_dir_abs False False of
        (Inl e, fs2) \<Rightarrow> (Inl e, self, fs2)
      | (Inr u2, fs2) \<Rightarrow>
     let pages_abs = truediv run_dir_abs ''pages'';
         batches_abs = truediv run_dir_abs ''batches'' in
     (case path_mkdir fs2 pages_abs False False of
        (Inl e, fs3) \<Rightarrow> (Inl e, self, fs3)
      | (Inr u3, fs3) \<Rightarrow>
     (case path_mkdir fs3 batches_abs False False of
        (Inl e, fs4) \<Rightarrow> (Inl e, self, fs4)
      | (Inr u4, fs4) \<Rightarrow>
     let original_stem = stem (pdf_path self) in
     (case copy2 fs4 (pdf_path self)
             (truediv run_dir_abs (''input('' @ original_stem @ '').pdf'')) of
        (Inl e, fs5) \<Rightarrow> (Inl e, self, fs5)
      | (Inr u5, fs5) \<Rightarrow>
          (Inr run_dir_abs,
           self\<lparr>run_dir := Some run_dir_abs,
                pages_dir := Some pages_abs,
                batches_dir := Some batches_abs\<rparr>,
           fs5))))))"

text \<open>
  \<^verbatim>\<open>write_image\<close>. The file name is the f-string of the source, for an index within
  Python's conversion limit (see \<open>fmt04d\<close>).
\<close>

definition page_name :: "int \<Rightarrow> string" where
  "page_name page_index = ''page_'' @ fmt04d page_index @ ''.png''"

definition write_image ::
  "run_storage \<Rightarrow> filesystem \<Rightarrow> int \<Rightarrow> string \<Rightarrow> (error + path) \<times> filesystem" where
  "write_image self fs page_index data =
     (case pages_dir self of
        None \<Rightarrow> (Inl not_initialized, fs)
      | Some pd \<Rightarrow>
          let target = truediv pd (page_name page_index) in
          (case write_file fs target data of
             (Inl e, fs1) \<Rightarrow> (Inl e, fs1)
           | (Inr u, fs1) \<Rightarrow> (Inr target, fs1)))"

text \<open>
  \<^verbatim>\<open>create_batch\<close>: the range check comes first, then the initialisation check. The
  identifier is the f-string of the source, for indices within Python's conversion limit.
\<close>

definition batch_name :: "int \<Rightarrow> int \<Rightarrow> string" where
  "batch_name start_page_index end_page_index =
     fmt04d start_page_index @ ''-'' @ fmt04d end_page_index"

definition create_batch ::
  "run_storage \<Rightarrow> filesystem \<Rightarrow> int \<Rightarrow> int \<Rightarrow> (error + string) \<times> filesystem" where
  "create_batch self fs start_page_index end_page_index =
     (if start_page_index > end_page_index then
        (Inl (ValueError ''start_page_index must be <= end_page_index''), fs)
      else (case batches_dir self of
              None \<Rightarrow> (Inl not_initialized, fs)
            | Some bd \<Rightarrow>
                let batch_id = batch_name start_page_index end_page_index;
                    batch_dir = truediv bd batch_id in
                (case path_mkdir fs batch_dir True False of
                   (Inl e, fs1) \<Rightarrow> (Inl e, fs1)
                 | (Inr u, fs1) \<Rightarrow> (Inr batch_id, fs1))))"

text \<open>
  \<^verbatim>\<open>write_prompt\<close> and \<^verbatim>\<open>write_response\<close> share everything but the file name and the
  content: the identifier is validated first, then the initialisation is checked, then the
  batch directory must exist. An error of the existence check itself propagates.
\<close>

definition batch_not_found :: "path \<Rightarrow> error" where
  "batch_not_found batch_dir =
     FileNotFoundError (''Batch directory does not exist: '' @ path_str batch_dir
                        @ ''. Call create_batch first.'')"

definition write_prompt ::
  "run_storage \<Rightarrow> filesystem \<Rightarrow> string \<Rightarrow> string \<Rightarrow> (error + path) \<times> filesystem" where
  "write_prompt self fs batch_id content_md =
     (case validate_batch_id batch_id of
        Some e \<Rightarrow> (Inl e, fs)
      | None \<Rightarrow>
     (case batches_dir self of
        None \<Rightarrow> (Inl not_initialized, fs)
      | Some bd \<Rightarrow>
          let batch_dir = truediv bd batch_id in
          (case path_exists fs batch_dir of
             (Inl e, fs1) \<Rightarrow> (Inl e, fs1)
           | (Inr False, fs1) \<Rightarrow> (Inl (batch_not_found batch_dir), fs1)
           | (Inr True, fs1) \<Rightarrow>
               let target = truediv batch_dir ''prompt.md'' in
               (case write_file fs1 target content_md of
                  (Inl e, fs2) \<Rightarrow> (Inl e, fs2)
                | (Inr u, fs2) \<Rightarrow> (Inr target, fs2)))))"

text \<open>
  \<open>dumps\<close> is \<^verbatim>\<open>json.dumps(_, indent=2, ensure_ascii=False)\<close>, taken as a parameter: the
  text of a payload, or the error it raises on a payload it cannot serialise. It is
  evaluated after the existence check and before the file is opened.
\<close>

definition write_response ::
  "('j \<Rightarrow> error + string) \<Rightarrow> run_storage \<Rightarrow> filesystem \<Rightarrow> string \<Rightarrow> 'j
     \<Rightarrow> (error + path) \<times> filesystem" where
  "write_response dumps self fs batch_id response_json =
     (case validate_batch_id batch_id of
        Some e \<Rightarrow> (Inl e, fs)
      | None \<Rightarrow>
     (case batches_dir self of
        None \<Rightarrow> (Inl not_initialized, fs)
      | Some bd \<Rightarrow>
          let batch_dir = truediv bd batch_id in
          (case path_exists fs batch_dir of
             (Inl e, fs1) \<Rightarrow> (Inl e, fs1)
           | (Inr False, fs1) \<Rightarrow> (Inl (batch_not_found batch_dir), fs1)
           | (Inr True, fs1) \<Rightarrow>
               let target = truediv batch_dir ''response.json'' in
               (case dumps response_json of
                  Inl e \<Rightarrow> (Inl e, fs1)
                | Inr text \<Rightarrow>
                    (case write_file fs1 target text of
                       (Inl e, fs2) \<Rightarrow> (Inl e, fs2)
                     | (Inr u, fs2) \<Rightarrow> (Inr target, fs2))))))"

text \<open>\<^verbatim>\<open>write_final_excel\<close>.\<close>

definition write_final_excel ::
  "run_storage \<Rightarrow> filesystem \<Rightarrow> string \<Rightarrow> (error + path) \<times> filesystem" where
  "write_final_excel self fs data =
     (case run_dir self of
        None \<Rightarrow> (Inl not_initialized, fs)
      | Some rd \<Rightarrow>
          let target = truediv rd ''output.xlsx'' in
          (case write_file fs target data of
             (Inl e, fs1) \<Rightarrow> (Inl e, fs1)
           | (Inr u, fs1) \<Rightarrow> (Inr target, fs1)))"

subsection \<open>Sequences of calls\<close>

text \<open>
  The calls a client can make on one gateway object, and the state they leave, whether
  they return or raise. The states a client can observe are those reached from a freshly
  constructed object by some sequence of calls.
\<close>

datatype 'j request =
    CreateRunDir string
  | WriteImage int string
  | CreateBatch int int
  | WritePrompt string string
  | WriteResponse string 'j
  | WriteFinalExcel string

fun perform ::
  "('j \<Rightarrow> error + string) \<Rightarrow> run_storage \<times> filesystem \<Rightarrow> 'j request
     \<Rightarrow> run_storage \<times> filesystem" where
  "perform dumps (self, fs) (CreateRunDir dir_name) = snd (create_run_dir dir_name self fs)"
| "perform dumps (self, fs) (WriteImage i data) = (self, snd (write_image self fs i data))"
| "perform dumps (self, fs) (CreateBatch a b) = (self, snd (create_batch self fs a b))"
| "perform dumps (self, fs) (WritePrompt b c) = (self, snd (write_prompt self fs b c))"
| "perform dumps (self, fs) (WriteResponse b j) = (self, snd (write_response dumps self fs b j))"
| "perform dumps (self, fs) (WriteFinalExcel data) = (self, snd (write_final_excel self fs data))"

definition perform_all ::
  "('j \<Rightarrow> error + string) \<Rightarrow> run_storage \<times> filesystem \<Rightarrow> 'j request list
     \<Rightarrow> run_storage \<times> filesystem" where
  "perform_all dumps st rs = foldl (perform dumps) st rs"

text \<open>Whether some \<^verbatim>\<open>create_run_dir\<close> among the calls returned, rather than raised.\<close>

fun returned :: "error + 'a \<Rightarrow> bool" where
  "returned (Inl e) = False"
| "returned (Inr v) = True"

fun init_succeeded ::
  "('j \<Rightarrow> error + string) \<Rightarrow> run_storage \<times> filesystem \<Rightarrow> 'j request list \<Rightarrow> bool" where
  "init_succeeded dumps st [] = False"
| "init_succeeded dumps st (CreateRunDir dir_name # rs) =
     (returned (fst (create_run_dir dir_name (fst st) (snd st)))
      \<or> init_succeeded dumps (perform dumps st (CreateRunDir dir_name)) rs)"
| "init_succeeded dumps st (r # rs) = init_succeeded dumps (perform dumps st r) rs"

definition fields_all_unset :: "run_storage \<Rightarrow> bool" where
  "fields_all_unset self \<longleftrightarrow>
     run_dir self = None \<and> pages_dir self = None \<and> batches_dir self = None"

definition fields_all_set :: "run_storage \<Rightarrow> bool" where
  "fields_all_set self \<longleftrightarrow>
     run_dir self \<noteq> None \<and> pages_dir self \<noteq> None \<and> batches_dir self \<noteq> None"

text \<open>
  The layout \<^verbatim>\<open>create_run_dir\<close> records: \<^verbatim>\<open>pages\<close> and \<^verbatim>\<open>batches\<close> directly below
  the run directory.
\<close>

definition laid_out :: "run_storage \<Rightarrow> bool" where
  "laid_out self =
     (case run_dir self of
        None \<Rightarrow> pages_dir self = None \<and> batches_dir self = None
      | Some rd \<Rightarrow>
          pages_dir self = Some (rd @ [''pages'']) \<and> batches_dir self = Some (rd @ [''batches'']))"

text \<open>
  No directory of the first filesystem is missing or replaced in the second, and the
  environment denies the same. This is a notion of the proofs, not of the code: the
  gateway has no operation that deletes.
\<close>

definition dirs_kept :: "filesystem \<Rightarrow> filesystem \<Rightarrow> bool" where
  "dirs_kept fs fs' \<longleftrightarrow>
     (\<forall>p. nodes fs p = Some Dir \<longrightarrow> nodes fs' p = Some Dir) \<and> refuse fs' = refuse fs"

text \<open>
  The paths a system call names, and whether a path, once walked, lies strictly below a
  directory.
\<close>

fun touched :: "syscall \<Rightarrow> path list" where
  "touched (Mkdir p) = [p]"
| "touched (Stat p) = [p]"
| "touched (Open p) = [p]"
| "touched (Copy src dst) = [src, dst]"

definition inside :: "path \<Rightarrow> path \<Rightarrow> bool" where
  "inside d p \<longleftrightarrow> strict_prefix (normpath d) (normpath p)"

text \<open>Whether an outcome is a filesystem error.\<close>

definition raised_os_error :: "error + 'a \<Rightarrow> bool" where
  "raised_os_error r = (case r of Inl e \<Rightarrow> is_os_error e | Inr v \<Rightarrow> False)"

subsection \<open>A concrete run\<close>

text \<open>
  A small filesystem holding the input document, a gateway constructed on it, and a
  reading of the clock; \<open>example_run\<close> is the gateway after \<^verbatim>\<open>create_run_dir\<close>.
\<close>

definition example_fs :: filesystem where
  "example_fs =
     \<lparr>nodes = [[''data''] \<mapsto> Dir, [''data'', ''plan.pdf''] \<mapsto> File ''%PDF''],
      refuse = (\<lambda>p. None), calls = []\<rparr>"

definition example_storage :: run_storage where
  "example_storage = init_storage [''runs''] [''data'', ''plan.pdf'']"

definition example_clock :: string where
  "example_clock = ''04_11_2026-10_30_00''"

definition example_run :: "run_storage \<times> filesystem" where
  "example_run = snd (create_run_dir example_clock example_storage example_fs)"

definition example_dumps :: "string \<Rightarrow> error + string" where
  "example_dumps j = Inr j"

text \<open>
  The same run on a filesystem that allows names of at most 255 bytes and answers a
  longer one with \<^verbatim>\<open>ENAMETOOLONG\<close> (36), and an identifier of 256 bytes.
\<close>

definition limited_fs :: filesystem where
  "limited_fs =
     example_fs\<lparr>refuse :=
       (\<lambda>p. if \<exists>c \<in> set p. 255 < length c then Some (Unreachable (OSError 36)) else None)\<rparr>"

definition limited_run :: "run_storage \<times> filesystem" where
  "limited_run = snd (create_run_dir example_clock example_storage limited_fs)"

definition long_id :: string where
  "long_id = ''0-'' @ replicate 254 (CHR ''0'')"

text \<open>A later reading of the clock.\<close>

definition later_clock :: string where
  "later_clock = ''04_11_2026-10_30_01''"

text \<open>A gateway whose input document is not on the disk.\<close>

definition lost_storage :: run_storage where
  "lost_storage = init_storage [''runs''] [''data'', ''lost.pdf'']"

section \<open>Properties\<close>

subsection \<open>Paths and identifiers\<close>

lemma validate_batch_id_None:
  "validate_batch_id s = None \<longleftrightarrow> s \<noteq> [] \<and> CHR ''-'' \<in> set s \<and> set s \<subseteq> allowed"
  unfolding validate_batch_id_def by (auto split: if_splits)

lemma validate_batch_id_Some:
  "validate_batch_id s \<noteq> None \<Longrightarrow> \<exists>m. validate_batch_id s = Some (ValueError m)"
  unfolding validate_batch_id_def by (simp split: if_splits)

lemma allowed_not_slash: "CHR ''/'' \<notin> allowed"
  by (simp add: allowed_def)

lemma allowed_not_dot: "CHR ''.'' \<notin> allowed"
  by (simp add: allowed_def)

lemma accepted_component:
  assumes "validate_batch_id s = None"
  shows "s \<noteq> []" "s \<noteq> ''.''" "s \<noteq> ''..''" "CHR ''/'' \<notin> set s"
proof -
  from assms have s: "s \<noteq> []" "set s \<subseteq> allowed"
    unfolding validate_batch_id_None by simp_all
  show "s \<noteq> []" by fact
  show "CHR ''/'' \<notin> set s" using s(2) allowed_not_slash by blast
  have "CHR ''.'' \<notin> set s" using s(2) allowed_not_dot by blast
  then show "s \<noteq> ''.''" "s \<noteq> ''..''" by auto
qed

lemma split_on_absent: "d \<notin> set s \<Longrightarrow> split_on d s = [s]"
  by (induction s) auto

lemma parse_parts_single:
  "s \<noteq> [] \<Longrightarrow> s \<noteq> ''.'' \<Longrightarrow> CHR ''/'' \<notin> set s \<Longrightarrow> parse_parts s = [s]"
  by (simp add: parse_parts_def split_on_absent)

lemma truediv_single:
  "s \<noteq> [] \<Longrightarrow> s \<noteq> ''.'' \<Longrightarrow> CHR ''/'' \<notin> set s \<Longrightarrow> truediv p s = p @ [s]"
  by (cases s) (auto simp: truediv_def parse_parts_single)

lemma normpath_snoc: "c \<noteq> ''..'' \<Longrightarrow> normpath (p @ [c]) = normpath p @ [c]"
  by (simp add: normpath_def)

lemma normpath_no_dotdot: "''..'' \<notin> set (normpath p)"
proof (induction p rule: rev_induct)
  case Nil
  show ?case by (simp add: normpath_def)
next
  case (snoc c p)
  then show ?case by (auto simp: normpath_def dest: in_set_butlastD)
qed

lemma normpath_id: "''..'' \<notin> set q \<Longrightarrow> normpath q = q"
  by (induction q rule: rev_induct) (auto simp: normpath_def)

lemma normpath_butlast: "normpath (butlast (normpath p)) = butlast (normpath p)"
  by (rule normpath_id) (meson in_set_butlastD normpath_no_dotdot)

subsection \<open>The concrete run, evaluated\<close>

lemmas run_eval = create_run_dir_def path_mkdir.simps os_mkdir_def lookup_def logged_def
  normpath_def truediv_def parse_parts_def copy2_def put_file_def stem_def rfind_dot_def
  path_is_dir_def path_exists_def write_file_def example_run_def example_fs_def
  example_storage_def example_clock_def example_dumps_def init_storage_def Let_def

lemma example_run_fields:
  "fst example_run =
     \<lparr>base_dir = [''runs''], pdf_path = [''data'', ''plan.pdf''],
      run_dir = Some [''runs'', example_clock],
      pages_dir = Some [''runs'', example_clock, ''pages''],
      batches_dir = Some [''runs'', example_clock, ''batches'']\<rparr>"
  by (simp add: run_eval)

lemma example_run_nodes:
  "nodes (snd example_run) =
     [[''data''] \<mapsto> Dir, [''data'', ''plan.pdf''] \<mapsto> File ''%PDF'',
      [''runs''] \<mapsto> Dir, [''runs'', example_clock] \<mapsto> Dir,
      [''runs'', example_clock, ''pages''] \<mapsto> Dir,
      [''runs'', example_clock, ''batches''] \<mapsto> Dir,
      [''runs'', example_clock, ''input(plan).pdf''] \<mapsto> File ''%PDF'']"
  by (simp add: run_eval)

lemma example_run_refuse: "refuse (snd example_run) = (\<lambda>p. None)"
  by (simp add: run_eval)

lemma example_run_lookups:
  "lookup (snd example_run) [''runs'', example_clock, ''batches''] = Some Dir"
  "lookup (snd example_run) [''runs'', example_clock, ''pages''] = Some Dir"
  "lookup (snd example_run) [''runs'', example_clock] = Some Dir"
  "normpath [''runs'', example_clock, ''batches''] = [''runs'', example_clock, ''batches'']"
  "normpath [''runs'', example_clock, ''pages''] = [''runs'', example_clock, ''pages'']"
  "normpath [''runs'', example_clock] = [''runs'', example_clock]"
  by (simp_all add: lookup_def normpath_def Let_def example_run_nodes example_clock_def)

lemmas step_eval = create_run_dir_def path_mkdir.simps os_mkdir_def os_stat_def lookup_def
  logged_def normpath_def truediv_def parse_parts_def copy2_def put_file_def stem_def
  rfind_dot_def path_is_dir_def path_exists_def write_file_def Let_def perform_all_def
  example_run_nodes example_run_refuse example_run_fields example_clock_def later_clock_def

subsection \<open>Filesystem calls\<close>

lemma logged_simps [simp]:
  "nodes (logged c fs) = nodes fs" "refuse (logged c fs) = refuse fs"
  "calls (logged c fs) = calls fs @ [c]" "lookup (logged c fs) p = lookup fs p"
  by (simp_all add: logged_def lookup_def Let_def)

lemma os_mkdir_returns:
  assumes "os_mkdir fs p = (Inr u, fs')"
  shows "normpath p \<noteq> []"
    and "lookup fs (butlast (normpath p)) = Some Dir"
    and "nodes fs (normpath p) = None"
    and "refuse fs (normpath p) = None"
    and "fs' = (logged (Mkdir p) fs)\<lparr>nodes := (nodes fs)(normpath p \<mapsto> Dir)\<rparr>"
  using assms unfolding os_mkdir_def Let_def
  by (auto split: if_splits option.splits node.splits refusal.splits)

lemma os_mkdir_fresh:
  assumes "normpath p \<noteq> []" "lookup fs (butlast (normpath p)) = Some Dir"
    "nodes fs (normpath p) = None" "refuse fs (normpath p) = None"
  shows "os_mkdir fs p = (Inr (), (logged (Mkdir p) fs)\<lparr>nodes := (nodes fs)(normpath p \<mapsto> Dir)\<rparr>)"
  using assms unfolding os_mkdir_def Let_def by simp

lemma os_mkdir_exists:
  assumes "normpath p \<noteq> []" "lookup fs (butlast (normpath p)) = Some Dir"
    "nodes fs (normpath p) \<noteq> None" "refuse fs (normpath p) = None"
  shows "os_mkdir fs p = (Inl FileExistsError, logged (Mkdir p) fs)"
  using assms unfolding os_mkdir_def Let_def by auto

lemma lookup_after_mkdir:
  assumes "normpath p \<noteq> []"
  shows "lookup ((logged c fs)\<lparr>nodes := (nodes fs)(normpath p \<mapsto> Dir)\<rparr>) p = Some Dir"
    and "lookup fs (butlast (normpath p)) = Some Dir \<Longrightarrow>
         lookup ((logged c fs)\<lparr>nodes := (nodes fs)(normpath p \<mapsto> Dir)\<rparr>) (butlast (normpath p)) = Some Dir"
proof -
  show "lookup ((logged c fs)\<lparr>nodes := (nodes fs)(normpath p \<mapsto> Dir)\<rparr>) p = Some Dir"
    using assms by (simp add: lookup_def Let_def)
  have ne: "butlast (normpath p) \<noteq> normpath p"
    using assms by (metis append_butlast_last_id append_self_conv not_Cons_self2)
  show "lookup ((logged c fs)\<lparr>nodes := (nodes fs)(normpath p \<mapsto> Dir)\<rparr>) (butlast (normpath p)) = Some Dir"
    if "lookup fs (butlast (normpath p)) = Some Dir"
    using that ne by (simp add: lookup_def Let_def normpath_butlast split: if_splits)
qed

text \<open>Without \<open>exist_ok\<close>, \<open>Path.mkdir\<close> returns only when its last \<open>os.mkdir\<close> did.\<close>

lemma path_mkdir_flat:
  "path_mkdir fs p False False = os_mkdir fs p"
  by (subst path_mkdir.simps) (auto split: prod.splits sum.splits)

lemma path_mkdir_returns:
  assumes "path_mkdir fs p parents False = (Inr u, fs')"
  shows "\<exists>fs1. os_mkdir fs1 p = (Inr u, fs')"
proof (cases "os_mkdir fs p")
  case (Pair r fs1)
  show ?thesis
  proof (cases r)
    case (Inr v)
    with Pair assms show ?thesis
      by (subst (asm) path_mkdir.simps) auto
  next
    case (Inl e)
    with Pair assms show ?thesis
      by (subst (asm) path_mkdir.simps)
        (auto simp: path_mkdir_flat split: if_splits prod.splits sum.splits)
  qed
qed

lemma path_mkdir_fresh:
  assumes "normpath p \<noteq> []" "lookup fs (butlast (normpath p)) = Some Dir"
    "nodes fs (normpath p) = None" "refuse fs (normpath p) = None"
  shows "path_mkdir fs p parents exist_ok
     = (Inr (), (logged (Mkdir p) fs)\<lparr>nodes := (nodes fs)(normpath p \<mapsto> Dir)\<rparr>)"
  by (subst path_mkdir.simps) (simp add: os_mkdir_fresh [OF assms])

lemma path_mkdir_exists:
  assumes "normpath p \<noteq> []" "lookup fs (butlast (normpath p)) = Some Dir"
    "nodes fs (normpath p) \<noteq> None" "refuse fs (normpath p) = None"
  shows "path_mkdir fs p parents False = (Inl FileExistsError, logged (Mkdir p) fs)"
  by (subst path_mkdir.simps) (simp add: os_mkdir_exists [OF assms])

subsection \<open>Directories persist\<close>

lemma dirs_kept_refl: "dirs_kept fs fs"
  by (simp add: dirs_kept_def)

lemma dirs_kept_trans: "dirs_kept fs fs1 \<Longrightarrow> dirs_kept fs1 fs2 \<Longrightarrow> dirs_kept fs fs2"
  by (simp add: dirs_kept_def)

lemma dirs_kept_logged: "dirs_kept fs (logged c fs)"
  by (simp add: dirs_kept_def)

lemma dirs_kept_lookup: "dirs_kept fs fs' \<Longrightarrow> lookup fs p = Some Dir \<Longrightarrow> lookup fs' p = Some Dir"
  by (auto simp: dirs_kept_def lookup_def Let_def split: if_splits)

lemma dirs_kept_os_mkdir: "dirs_kept fs (snd (os_mkdir fs p))"
  unfolding os_mkdir_def Let_def dirs_kept_def
  by (auto split: option.splits node.splits refusal.splits)

lemma dirs_kept_put_file: "dirs_kept fs (snd (put_file fs p data))"
  unfolding put_file_def Let_def dirs_kept_def
  by (auto split: option.splits node.splits refusal.splits)

lemma dirs_kept_write_file: "dirs_kept fs (snd (write_file fs p data))"
  unfolding write_file_def
  by (rule dirs_kept_trans [OF dirs_kept_logged dirs_kept_put_file])

lemma dirs_kept_copy2: "dirs_kept fs (snd (copy2 fs src dst))"
proof -
  have "dirs_kept (logged (Copy src dst) fs) (snd (copy2 fs src dst))"
    unfolding copy2_def Let_def
    by (auto split: option.splits node.splits simp: dirs_kept_refl dirs_kept_put_file)
  with dirs_kept_logged show ?thesis by (rule dirs_kept_trans)
qed

lemma dirs_kept_path_is_dir: "dirs_kept fs (snd (path_is_dir fs p))"
  by (simp add: path_is_dir_def dirs_kept_logged split: sum.splits)

lemma dirs_kept_path_exists: "dirs_kept fs (snd (path_exists fs p))"
  by (simp add: path_exists_def dirs_kept_logged split: sum.splits)

lemma dirs_kept_path_mkdir: "dirs_kept fs (snd (path_mkdir fs p parents exist_ok))"
proof (induction fs p parents exist_ok rule: path_mkdir.induct)
  case (1 fs p parents exist_ok)
  obtain r fs1 where m: "os_mkdir fs p = (r, fs1)" by (cases "os_mkdir fs p")
  have k1: "dirs_kept fs fs1" using dirs_kept_os_mkdir [of fs p] m by simp
  show ?case
  proof (cases r)
    case (Inr u)
    with m k1 show ?thesis by (subst path_mkdir.simps) simp
  next
    case (Inl e)
    show ?thesis
    proof (cases "is_file_not_found e")
      case False
      have "dirs_kept fs1 (snd (path_is_dir fs1 p))" by (rule dirs_kept_path_is_dir)
      with k1 have "dirs_kept fs (snd (path_is_dir fs1 p))" by (rule dirs_kept_trans)
      with m Inl False k1 show ?thesis
        by (subst path_mkdir.simps) (auto split: prod.splits sum.splits)
    next
      case True
      show ?thesis
      proof (cases "\<not> parents \<or> p = []")
        case True
        with m Inl \<open>is_file_not_found e\<close> k1 show ?thesis
          by (subst path_mkdir.simps) simp
      next
        case False
        obtain r2 fs2 where m2: "path_mkdir fs1 (butlast p) True True = (r2, fs2)"
          by (cases "path_mkdir fs1 (butlast p) True True")
        have "dirs_kept fs1 (snd (path_mkdir fs1 (butlast p) True True))"
          using "1.IH"(1) [OF m [symmetric] Inl \<open>is_file_not_found e\<close> False] .
        with m2 k1 have k2: "dirs_kept fs fs2" by (auto intro: dirs_kept_trans)
        show ?thesis
        proof (cases r2)
          case (Inl e2)
          with m \<open>r = Inl e\<close> \<open>is_file_not_found e\<close> False m2 k2 show ?thesis
            by (subst path_mkdir.simps) simp
        next
          case (Inr u2)
          have "dirs_kept fs2 (snd (path_mkdir fs2 p False exist_ok))"
            using "1.IH"(2) [OF m [symmetric] \<open>r = Inl e\<close> \<open>is_file_not_found e\<close> False m2 [symmetric] Inr] .
          with k2 have "dirs_kept fs (snd (path_mkdir fs2 p False exist_ok))"
            by (rule dirs_kept_trans)
          with m \<open>r = Inl e\<close> \<open>is_file_not_found e\<close> False m2 Inr show ?thesis
            by (subst path_mkdir.simps) simp
        qed
      qed
    qed
  qed
qed

lemma dirs_kept_create_run_dir: "dirs_kept fs (snd (snd (create_run_dir d self fs)))"
proof -
  note k = dirs_kept_path_mkdir dirs_kept_copy2
  have step: "\<And>a b c. dirs_kept a b \<Longrightarrow> dirs_kept b c \<Longrightarrow> dirs_kept a c"
    by (rule dirs_kept_trans)
  obtain r1 f1 where m1: "path_mkdir fs (base_dir self) True True = (r1, f1)"
    by (cases "path_mkdir fs (base_dir self) True True")
  obtain r2 f2 where m2: "path_mkdir f1 (truediv (base_dir self) d) False False = (r2, f2)"
    by (cases "path_mkdir f1 (truediv (base_dir self) d) False False")
  obtain r3 f3 where m3:
    "path_mkdir f2 (truediv (truediv (base_dir self) d) ''pages'') False False = (r3, f3)"
    by (cases "path_mkdir f2 (truediv (truediv (base_dir self) d) ''pages'') False False")
  obtain r4 f4 where m4:
    "path_mkdir f3 (truediv (truediv (base_dir self) d) ''batches'') False False = (r4, f4)"
    by (cases "path_mkdir f3 (truediv (truediv (base_dir self) d) ''batches'') False False")
  obtain r5 f5 where m5:
    "copy2 f4 (pdf_path self)
       (truediv (truediv (base_dir self) d) (''input('' @ stem (pdf_path self) @ '').pdf'')) = (r5, f5)"
    by (cases "copy2 f4 (pdf_path self)
       (truediv (truediv (base_dir self) d) (''input('' @ stem (pdf_path self) @ '').pdf''))")
  have k1: "dirs_kept fs f1" using k(1) [of fs "base_dir self" True True] m1 by simp
  have k2: "dirs_kept fs f2"
    using k(1) [of f1 "truediv (base_dir self) d" False False] m2 k1 by (auto intro: step)
  have k3: "dirs_kept fs f3"
    using k(1) [of f2 "truediv (truediv (base_dir self) d) ''pages''" False False] m3 k2
    by (auto intro: step)
  have k4: "dirs_kept fs f4"
    using k(1) [of f3 "truediv (truediv (base_dir self) d) ''batches''" False False] m4 k3
    by (auto intro: step)
  have k5: "dirs_kept fs f5"
    using k(2) [of f4 "pdf_path self"
        "truediv (truediv (base_dir self) d) (''input('' @ stem (pdf_path self) @ '').pdf'')"] m5 k4
    by (auto intro: step)
  show ?thesis
    unfolding create_run_dir_def Let_def
    using m1 m2 m3 m4 m5 k1 k2 k3 k4 k5 by (simp split: sum.splits)
qed

lemma dirs_kept_write_image: "dirs_kept fs (snd (write_image self fs i data))"
  unfolding write_image_def Let_def
  using dirs_kept_write_file
  by (auto split: option.splits prod.splits sum.splits simp: dirs_kept_refl)
    (metis snd_conv)+

lemma dirs_kept_write_final_excel: "dirs_kept fs (snd (write_final_excel self fs data))"
  unfolding write_final_excel_def Let_def
  using dirs_kept_write_file
  by (auto split: option.splits prod.splits sum.splits simp: dirs_kept_refl)
    (metis snd_conv)+

lemma dirs_kept_create_batch: "dirs_kept fs (snd (create_batch self fs a b))"
  unfolding create_batch_def Let_def
  using dirs_kept_path_mkdir
  by (auto split: option.splits prod.splits sum.splits simp: dirs_kept_refl)
    (metis snd_conv)+

lemma dirs_kept_stat_write:
  "dirs_kept fs (snd (write_file (logged c fs) p data))"
  by (rule dirs_kept_trans [OF dirs_kept_logged dirs_kept_write_file])

lemma dirs_kept_write_prompt: "dirs_kept fs (snd (write_prompt self fs b c))"
  unfolding write_prompt_def Let_def path_exists_def
  using dirs_kept_stat_write
  by (auto split: option.splits prod.splits sum.splits bool.splits
      simp: dirs_kept_refl dirs_kept_logged)
    (metis snd_conv)+

lemma dirs_kept_write_response: "dirs_kept fs (snd (write_response dumps self fs b j))"
  unfolding write_response_def Let_def path_exists_def
  using dirs_kept_stat_write
  by (auto split: option.splits prod.splits sum.splits bool.splits
      simp: dirs_kept_refl dirs_kept_logged)
    (metis snd_conv)+

lemma dirs_kept_perform: "dirs_kept (snd st) (snd (perform dumps st r))"
  by (cases st; cases r)
    (simp_all add: dirs_kept_create_run_dir dirs_kept_write_image dirs_kept_create_batch
      dirs_kept_write_prompt dirs_kept_write_response dirs_kept_write_final_excel)

lemma dirs_kept_perform_all: "dirs_kept (snd st) (snd (perform_all dumps st rs))"
  unfolding perform_all_def
proof (induction rs arbitrary: st)
  case Nil
  show ?case by (simp add: dirs_kept_refl)
next
  case (Cons r rs)
  have "dirs_kept (snd st) (snd (perform dumps st r))" by (rule dirs_kept_perform)
  moreover have "dirs_kept (snd (perform dumps st r)) (snd (foldl (perform dumps) (perform dumps st r) rs))"
    by (rule Cons.IH)
  ultimately show ?case by (simp add: dirs_kept_trans)
qed

subsection \<open>Formatted names\<close>

lemma digit_char_allowed: "digit_char d \<in> allowed"
proof -
  have "digit_char d \<in> set ''0123456789''"
    unfolding digit_char_def by (rule nth_mem) simp
  moreover have "set ''0123456789'' \<subseteq> allowed"
    by (simp add: allowed_def)
  ultimately show ?thesis by blast
qed

lemma str_nat_allowed: "set (str_nat n) \<subseteq> allowed"
proof (induction n rule: str_nat.induct)
  case (1 n)
  show ?case
  proof (cases "n < 10")
    case True
    then show ?thesis by (subst str_nat.simps) (simp add: digit_char_allowed)
  next
    case False
    with 1 show ?thesis by (subst str_nat.simps) (simp add: digit_char_allowed)
  qed
qed

lemma str_nat_nonempty: "str_nat n \<noteq> []"
  by (subst str_nat.simps) simp

lemma zfill_allowed: "set s \<subseteq> allowed \<Longrightarrow> set (zfill w s) \<subseteq> allowed"
proof -
  assume "set s \<subseteq> allowed"
  moreover have "CHR ''0'' \<in> allowed" by (simp add: allowed_def)
  ultimately show ?thesis by (auto simp: zfill_def)
qed

lemma dash_allowed: "CHR ''-'' \<in> allowed"
  by (simp add: allowed_def)

lemma fmt04d_allowed: "set (fmt04d n) \<subseteq> allowed"
  using zfill_allowed [OF str_nat_allowed] dash_allowed by (simp add: fmt04d_def)

lemma fmt04d_nonempty: "fmt04d n \<noteq> []"
  by (simp add: fmt04d_def zfill_def str_nat_nonempty)

lemma batch_name_accepted: "validate_batch_id (batch_name a b) = None"
  unfolding validate_batch_id_None batch_name_def
  using fmt04d_allowed dash_allowed by simp

lemma page_name_component:
  "page_name i \<noteq> []" "page_name i \<noteq> ''.''" "page_name i \<noteq> ''..''" "CHR ''/'' \<notin> set (page_name i)"
proof -
  show "page_name i \<noteq> []" "page_name i \<noteq> ''.''" "page_name i \<noteq> ''..''"
    by (simp_all add: page_name_def)
  have "CHR ''/'' \<notin> set (fmt04d i)"
    using fmt04d_allowed allowed_not_slash by blast
  then show "CHR ''/'' \<notin> set (page_name i)"
    by (simp add: page_name_def)
qed

lemma truediv_page_name: "truediv pd (page_name i) = pd @ [page_name i]"
  by (rule truediv_single) (rule page_name_component)+

lemma truediv_accepted: "validate_batch_id s = None \<Longrightarrow> truediv bd s = bd @ [s]"
  by (rule truediv_single) (rule accepted_component, assumption)+

lemma truediv_batch_name: "truediv bd (batch_name a b) = bd @ [batch_name a b]"
  by (rule truediv_accepted) (rule batch_name_accepted)

lemma zfill_step: "zfill w s = (if length s < w then zfill w (CHR ''0'' # s) else s)"
proof (cases "length s < w")
  case True
  then obtain k where k: "w - length s = Suc k" by (metis Suc_diff_Suc)
  then have "w - length (CHR ''0'' # s) = k" by simp
  with k True show ?thesis
    by (simp add: zfill_def replicate_app_Cons_same)
next
  case False
  then show ?thesis by (simp add: zfill_def)
qed

lemmas fmt_eval = fmt04d_def zfill_step str_nat.simps digit_char_def batch_name_def page_name_def

lemma example_names:
  "batch_name 0 2 = ''0000-0002''"
  "batch_name (- 2) (- 1) = ''-002--001''"
  "page_name 0 = ''page_0000.png''"
  "page_name (- 1) = ''page_-001.png''"
  "page_name 9999 = ''page_9999.png''"
  "page_name 10000 = ''page_10000.png''"
  by (simp_all add: fmt_eval)

subsection \<open>Digits and order\<close>

lemma digit_char_code: "of_char (digit_char d) = 48 + d mod 10"
proof -
  have "d mod 10 < 10" by simp
  then have "d mod 10 = 0 \<or> d mod 10 = 1 \<or> d mod 10 = 2 \<or> d mod 10 = 3 \<or> d mod 10 = 4
      \<or> d mod 10 = 5 \<or> d mod 10 = 6 \<or> d mod 10 = 7 \<or> d mod 10 = 8 \<or> d mod 10 = 9"
    by arith
  then show ?thesis
    unfolding digit_char_def by (elim disjE) simp_all
qed

lemma digit_char_less: "digit_char a < digit_char b \<longleftrightarrow> a mod 10 < b mod 10"
  by (simp add: less_char_def digit_char_code)

lemma digit_char_eq: "digit_char a = digit_char b \<longleftrightarrow> a mod 10 = b mod 10"
proof
  assume "digit_char a = digit_char b"
  then have "(of_char (digit_char a) :: nat) = of_char (digit_char b)" by simp
  then show "a mod 10 = b mod 10" by (simp add: digit_char_code)
next
  assume "a mod 10 = b mod 10"
  then show "digit_char a = digit_char b" by (simp add: digit_char_def)
qed

lemma digit_char_mod: "digit_char (n mod 10) = digit_char n"
  by (simp add: digit_char_def)

lemma fmt04d_four_digits:
  assumes "0 \<le> n" "n \<le> 9999"
  shows "fmt04d n = [digit_char (nat n div 1000), digit_char (nat n div 100),
                     digit_char (nat n div 10), digit_char (nat n)]"
proof -
  define m where "m = nat n"
  have m: "m < 10000" using assms by (simp add: m_def)
  have z: "digit_char 0 = CHR ''0''" by (simp add: digit_char_def)
  have small: "\<And>k. k < 10 \<Longrightarrow> str_nat k = [digit_char k]"
    by (subst str_nat.simps) simp
  have step: "\<And>k. \<not> k < 10 \<Longrightarrow> str_nat k = str_nat (k div 10) @ [digit_char k]"
    by (subst str_nat.simps) (simp add: digit_char_mod)
  consider "m < 10" | "10 \<le> m" "m < 100" | "100 \<le> m" "m < 1000" | "1000 \<le> m"
    by linarith
  then have "zfill 4 (str_nat m)
      = [digit_char (m div 1000), digit_char (m div 100), digit_char (m div 10), digit_char m]"
  proof cases
    case 1
    then show ?thesis by (simp add: small zfill_def z numeral_3_eq_3)
  next
    case 2
    then have "str_nat m = [digit_char (m div 10), digit_char m]"
      by (simp add: step small)
    with 2 show ?thesis by (simp add: zfill_def z numeral_2_eq_2)
  next
    case 3
    then have a: "\<not> m div 10 < 10" "m div 10 div 10 < 10" by simp_all
    have "str_nat m = [digit_char (m div 100), digit_char (m div 10), digit_char m]"
      using 3 a by (simp add: step small div_mult2_eq [symmetric])
    with 3 show ?thesis by (simp add: zfill_def z)
  next
    case 4
    then have a: "\<not> m < 10" "\<not> m div 10 < 10" "\<not> m div 10 div 10 < 10"
      "m div 10 div 10 div 10 < 10" using m by simp_all
    have "str_nat m = [digit_char (m div 1000), digit_char (m div 100), digit_char (m div 10),
        digit_char m]"
      using a by (simp add: step small div_mult2_eq [symmetric])
    then show ?thesis by (simp add: zfill_def)
  qed
  then show ?thesis using assms by (simp add: fmt04d_def m_def)
qed

lemma less_step:
  "(a::nat) < b \<longleftrightarrow> a div 10 < b div 10 \<or> (a div 10 = b div 10 \<and> a mod 10 < b mod 10)"
proof -
  define x r y s where "x = a div 10" and "r = a mod 10" and "y = b div 10" and "s = b mod 10"
  have a: "a = 10 * x + r" and b: "b = 10 * y + s" and r: "r < 10" and s: "s < 10"
    by (simp_all add: x_def r_def y_def s_def)
  have "(10 * x + r < 10 * y + s) \<longleftrightarrow> x < y \<or> (x = y \<and> r < s)"
    using r s by arith
  then show ?thesis
    unfolding x_def r_def y_def s_def by simp
qed

lemma eq_step:
  "(a::nat) = b \<longleftrightarrow> a div 10 = b div 10 \<and> a mod 10 = b mod 10"
  by (metis div_mult_mod_eq)

lemma four_digits_order:
  assumes "a < 10000" "b < 10000"
  shows "(a div 1000 mod 10 < b div 1000 mod 10
          \<or> a div 1000 mod 10 = b div 1000 mod 10
            \<and> (a div 100 mod 10 < b div 100 mod 10
               \<or> a div 100 mod 10 = b div 100 mod 10
                 \<and> (a div 10 mod 10 < b div 10 mod 10
                    \<or> a div 10 mod 10 = b div 10 mod 10 \<and> a mod 10 < b mod 10)))
         \<longleftrightarrow> (a::nat) < b"
proof -
  have d: "\<And>n::nat. n div 10 div 10 = n div 100" "\<And>n::nat. n div 100 div 10 = n div 1000"
    by (simp_all add: div_mult2_eq [symmetric])
  have t: "a div 1000 mod 10 = a div 1000" "b div 1000 mod 10 = b div 1000"
    using assms by simp_all
  have l1: "a < b \<longleftrightarrow> a div 10 < b div 10 \<or> (a div 10 = b div 10 \<and> a mod 10 < b mod 10)"
    by (rule less_step)
  have l2: "a div 10 < b div 10 \<longleftrightarrow>
      a div 100 < b div 100 \<or> (a div 100 = b div 100 \<and> a div 10 mod 10 < b div 10 mod 10)"
    using less_step [of "a div 10" "b div 10"] by (simp add: d)
  have l3: "a div 100 < b div 100 \<longleftrightarrow>
      a div 1000 < b div 1000 \<or> (a div 1000 = b div 1000 \<and> a div 100 mod 10 < b div 100 mod 10)"
    using less_step [of "a div 100" "b div 100"] by (simp add: d)
  have e2: "a div 10 = b div 10 \<longleftrightarrow>
      a div 100 = b div 100 \<and> a div 10 mod 10 = b div 10 mod 10"
    using eq_step [of "a div 10" "b div 10"] by (simp add: d)
  have e3: "a div 100 = b div 100 \<longleftrightarrow>
      a div 1000 = b div 1000 \<and> a div 100 mod 10 = b div 100 mod 10"
    using eq_step [of "a div 100" "b div 100"] by (simp add: d)
  show ?thesis
    unfolding t l1 l2 l3 e2 e3 by blast
qed

subsection \<open>Fresh files and directories\<close>

lemma normpath_idem: "normpath (normpath p) = normpath p"
  by (simp add: normpath_id normpath_no_dotdot)

lemma lookup_normpath: "lookup fs (normpath p) = lookup fs p"
  by (simp add: lookup_def normpath_idem)

lemma put_file_fresh:
  assumes "normpath p \<noteq> []" "lookup fs (butlast (normpath p)) = Some Dir"
    "nodes fs (normpath p) \<noteq> Some Dir" "refuse fs (normpath p) = None"
  shows "put_file fs p data = (Inr (), fs\<lparr>nodes := (nodes fs)(normpath p \<mapsto> File data)\<rparr>)"
  using assms unfolding put_file_def Let_def by simp

lemma write_file_fresh:
  assumes "normpath p \<noteq> []" "lookup fs (butlast (normpath p)) = Some Dir"
    "nodes fs (normpath p) \<noteq> Some Dir" "refuse fs (normpath p) = None"
  shows "write_file fs p data
     = (Inr (), (logged (Open p) fs)\<lparr>nodes := (nodes fs)(normpath p \<mapsto> File data)\<rparr>)"
  unfolding write_file_def using assms by (simp add: put_file_fresh)

text \<open>A batch directory that is not there yet, below a batches directory that is.\<close>

lemma create_batch_fresh:
  assumes "start_page_index \<le> end_page_index"
    and "batches_dir self = Some bd"
    and "lookup fs bd = Some Dir"
    and "lookup fs (bd @ [batch_name start_page_index end_page_index]) = None"
    and "refuse fs (normpath bd @ [batch_name start_page_index end_page_index]) = None"
  shows "create_batch self fs start_page_index end_page_index
     = (Inr (batch_name start_page_index end_page_index),
        (logged (Mkdir (bd @ [batch_name start_page_index end_page_index])) fs)
          \<lparr>nodes := (nodes fs)
             (normpath bd @ [batch_name start_page_index end_page_index] \<mapsto> Dir)\<rparr>)"
proof -
  let ?id = "batch_name start_page_index end_page_index"
  have j: "truediv bd ?id = bd @ [?id]" by (rule truediv_batch_name)
  have "?id \<noteq> ''..''" using batch_name_accepted by (rule accepted_component(3))
  then have n: "normpath (bd @ [?id]) = normpath bd @ [?id]" by (rule normpath_snoc)
  have "path_mkdir fs (bd @ [?id]) True False
      = (Inr (), (logged (Mkdir (bd @ [?id])) fs)
            \<lparr>nodes := (nodes fs)(normpath (bd @ [?id]) \<mapsto> Dir)\<rparr>)"
  proof (rule path_mkdir_fresh)
    show "normpath (bd @ [?id]) \<noteq> []" by (simp add: n)
    show "lookup fs (butlast (normpath (bd @ [?id]))) = Some Dir"
      by (simp add: n lookup_normpath assms(3))
    show "nodes fs (normpath (bd @ [?id])) = None"
      using assms(4) by (simp add: lookup_def Let_def n)
    show "refuse fs (normpath (bd @ [?id])) = None"
      using assms(5) by (simp add: n)
  qed
  then show ?thesis
    using assms(1,2) by (simp add: create_batch_def Let_def j n)
qed

lemma lookup_new_dir:
  "q \<noteq> [] \<Longrightarrow> normpath p = q \<Longrightarrow> lookup (fs\<lparr>nodes := (nodes fs0)(q \<mapsto> Dir)\<rparr>) p = Some Dir"
  by (simp add: lookup_def Let_def)

lemma os_stat_plain:
  "refuse fs (normpath p) = None \<Longrightarrow>
     os_stat fs p = (case lookup fs p of None \<Rightarrow> Inl (FileNotFoundError []) | Some n \<Rightarrow> Inr n)"
  by (simp add: os_stat_def)

lemma path_exists_cases:
  "os_stat fs p = Inr n \<Longrightarrow> path_exists fs p = (Inr True, logged (Stat p) fs)"
  "os_stat fs p = Inl e \<Longrightarrow> ignore_error e \<Longrightarrow> path_exists fs p = (Inr False, logged (Stat p) fs)"
  "os_stat fs p = Inl e \<Longrightarrow> \<not> ignore_error e \<Longrightarrow> path_exists fs p = (Inl e, logged (Stat p) fs)"
  by (simp_all add: path_exists_def)

lemma missing_stat:
  assumes "lookup fs p = None" and "stat_error fs p = None"
  shows "\<exists>e. os_stat fs p = Inl e \<and> ignore_error e"
proof (cases "os_stat fs p")
  case (Inl e)
  with assms(2) show ?thesis by (auto simp: stat_error_def split: if_splits)
next
  case (Inr n)
  with assms(1) show ?thesis
    by (auto simp: os_stat_def split: option.splits refusal.splits)
qed

lemma write_prompt_found:
  assumes "validate_batch_id batch_id = None"
    and "batches_dir self = Some bd"
    and "os_stat fs (bd @ [batch_id]) = Inr n"
  shows "write_prompt self fs batch_id content_md
     = (case write_file (logged (Stat (bd @ [batch_id])) fs) (bd @ [batch_id, ''prompt.md'']) content_md of
          (Inl e, fs2) \<Rightarrow> (Inl e, fs2)
        | (Inr u, fs2) \<Rightarrow> (Inr (bd @ [batch_id, ''prompt.md'']), fs2))"
proof -
  have j: "truediv bd batch_id = bd @ [batch_id]"
    using assms(1) by (rule truediv_accepted)
  have t: "truediv (bd @ [batch_id]) ''prompt.md'' = bd @ [batch_id, ''prompt.md'']"
    by (simp add: truediv_def parse_parts_def)
  show ?thesis
    using assms(1,2) by (simp add: write_prompt_def j t path_exists_cases(1) [OF assms(3)] Let_def)
qed

lemma write_response_found:
  assumes "validate_batch_id batch_id = None"
    and "batches_dir self = Some bd"
    and "os_stat fs (bd @ [batch_id]) = Inr n"
  shows "write_response dumps self fs batch_id response_json
     = (case dumps response_json of
          Inl e \<Rightarrow> (Inl e, logged (Stat (bd @ [batch_id])) fs)
        | Inr text \<Rightarrow>
            (case write_file (logged (Stat (bd @ [batch_id])) fs) (bd @ [batch_id, ''response.json'']) text of
               (Inl e, fs2) \<Rightarrow> (Inl e, fs2)
             | (Inr u, fs2) \<Rightarrow> (Inr (bd @ [batch_id, ''response.json'']), fs2)))"
proof -
  have j: "truediv bd batch_id = bd @ [batch_id]"
    using assms(1) by (rule truediv_accepted)
  have t: "truediv (bd @ [batch_id]) ''response.json'' = bd @ [batch_id, ''response.json'']"
    by (simp add: truediv_def parse_parts_def)
  show ?thesis
    using assms(1,2)
    by (simp add: write_response_def j t path_exists_cases(1) [OF assms(3)] Let_def)
qed

text \<open>When the \<^verbatim>\<open>stat\<close> of the batch directory fails, the writes stop at the check.\<close>

lemma write_prompt_not_entered:
  assumes "validate_batch_id batch_id = None"
    and "batches_dir self = Some bd"
    and "os_stat fs (bd @ [batch_id]) = Inl e"
  shows "write_prompt self fs batch_id content_md
     = (Inl (if ignore_error e then batch_not_found (bd @ [batch_id]) else e),
        logged (Stat (bd @ [batch_id])) fs)"
proof -
  have j: "truediv bd batch_id = bd @ [batch_id]"
    using assms(1) by (rule truediv_accepted)
  show ?thesis
    using assms(1,2) path_exists_cases(2,3) [OF assms(3)]
    by (cases "ignore_error e") (simp_all add: write_prompt_def j Let_def)
qed

lemma write_response_not_entered:
  assumes "validate_batch_id batch_id = None"
    and "batches_dir self = Some bd"
    and "os_stat fs (bd @ [batch_id]) = Inl e"
  shows "write_response dumps self fs batch_id response_json
     = (Inl (if ignore_error e then batch_not_found (bd @ [batch_id]) else e),
        logged (Stat (bd @ [batch_id])) fs)"
proof -
  have j: "truediv bd batch_id = bd @ [batch_id]"
    using assms(1) by (rule truediv_accepted)
  show ?thesis
    using assms(1,2) path_exists_cases(2,3) [OF assms(3)]
    by (cases "ignore_error e") (simp_all add: write_response_def j Let_def)
qed

lemma fmt04d_negative: "n < 0 \<Longrightarrow> fmt04d n = CHR ''-'' # zfill 3 (str_nat (nat (- n)))"
  by (simp add: fmt04d_def)

subsection \<open>What the artifact writes touch\<close>

lemma normpath_append_plain: "''..'' \<notin> set cs \<Longrightarrow> normpath (p @ cs) = normpath p @ cs"
proof (induction cs rule: rev_induct)
  case Nil
  show ?case by simp
next
  case (snoc c cs)
  then have "c \<noteq> ''..''" by auto
  then have "normpath ((p @ cs) @ [c]) = normpath (p @ cs) @ [c]"
    by (rule normpath_snoc)
  with snoc show ?case by simp
qed

lemma inside_below: "cs \<noteq> [] \<Longrightarrow> ''..'' \<notin> set cs \<Longrightarrow> inside d (d @ cs)"
  by (simp add: inside_def normpath_append_plain strict_prefix_def)

lemma put_file_effect:
  "calls (snd (put_file fs p data)) = calls fs"
  "nodes (snd (put_file fs p data)) q \<noteq> nodes fs q \<Longrightarrow> q = normpath p"
  unfolding put_file_def Let_def
  by (auto split: option.splits node.splits if_splits refusal.splits)

lemma write_file_effect:
  "calls (snd (write_file fs p data)) = calls fs @ [Open p]"
  "nodes (snd (write_file fs p data)) q \<noteq> nodes fs q \<Longrightarrow> q = normpath p"
  unfolding write_file_def
  using put_file_effect(1) [of "logged (Open p) fs" p data]
    put_file_effect(2) [of "logged (Open p) fs" p data q]
  by simp_all

lemma write_prompt_missing:
  assumes "validate_batch_id batch_id = None"
    and "batches_dir self = Some bd"
    and "lookup fs (bd @ [batch_id]) = None"
    and "stat_error fs (bd @ [batch_id]) = None"
  shows "write_prompt self fs batch_id content_md
           = (Inl (batch_not_found (bd @ [batch_id])), logged (Stat (bd @ [batch_id])) fs)"
proof -
  from missing_stat [OF assms(3,4)] obtain e
    where "os_stat fs (bd @ [batch_id]) = Inl e" and "ignore_error e" by blast
  then show ?thesis
    using write_prompt_not_entered [OF assms(1,2), of fs e content_md] by simp
qed

lemma write_response_missing:
  assumes "validate_batch_id batch_id = None"
    and "batches_dir self = Some bd"
    and "lookup fs (bd @ [batch_id]) = None"
    and "stat_error fs (bd @ [batch_id]) = None"
  shows "write_response dumps self fs batch_id response_json
           = (Inl (batch_not_found (bd @ [batch_id])), logged (Stat (bd @ [batch_id])) fs)"
proof -
  from missing_stat [OF assms(3,4)] obtain e
    where "os_stat fs (bd @ [batch_id]) = Inl e" and "ignore_error e" by blast
  then show ?thesis
    using write_response_not_entered [OF assms(1,2), of fs e dumps response_json] by simp
qed

text \<open>What the two artifact writes do to the filesystem, for an accepted identifier.\<close>

lemma write_prompt_effect:
  assumes "validate_batch_id batch_id = None" and "batches_dir self = Some bd"
  shows "set (drop (length (calls fs)) (calls (snd (write_prompt self fs batch_id content_md))))
           \<subseteq> {Stat (bd @ [batch_id]), Open (bd @ [batch_id, ''prompt.md''])}"
    and "nodes (snd (write_prompt self fs batch_id content_md)) q \<noteq> nodes fs q \<Longrightarrow>
           q = normpath (bd @ [batch_id, ''prompt.md''])"
proof -
  let ?w = "write_file (logged (Stat (bd @ [batch_id])) fs) (bd @ [batch_id, ''prompt.md'']) content_md"
  have found: "snd (write_prompt self fs batch_id content_md) = snd ?w"
    if "os_stat fs (bd @ [batch_id]) = Inr n" for n
    unfolding write_prompt_found [OF assms that] by (simp split: prod.splits sum.splits)
  have stopped: "snd (write_prompt self fs batch_id content_md) = logged (Stat (bd @ [batch_id])) fs"
    if "os_stat fs (bd @ [batch_id]) = Inl e" for e
    by (simp add: write_prompt_not_entered [OF assms that])
  have c: "calls (snd ?w) = calls fs @ [Stat (bd @ [batch_id]), Open (bd @ [batch_id, ''prompt.md''])]"
    by (simp add: write_file_effect)
  show "set (drop (length (calls fs)) (calls (snd (write_prompt self fs batch_id content_md))))
           \<subseteq> {Stat (bd @ [batch_id]), Open (bd @ [batch_id, ''prompt.md''])}"
  proof (cases "os_stat fs (bd @ [batch_id])")
    case (Inl e)
    show ?thesis by (simp add: stopped [OF Inl])
  next
    case (Inr n)
    show ?thesis by (simp add: found [OF Inr] c)
  qed
  show "q = normpath (bd @ [batch_id, ''prompt.md''])"
    if "nodes (snd (write_prompt self fs batch_id content_md)) q \<noteq> nodes fs q"
  proof (cases "os_stat fs (bd @ [batch_id])")
    case (Inl e)
    with that show ?thesis by (simp add: stopped [OF Inl])
  next
    case (Inr n)
    with that have "nodes (snd ?w) q \<noteq> nodes (logged (Stat (bd @ [batch_id])) fs) q"
      by (simp add: found [OF Inr])
    then show ?thesis by (rule write_file_effect(2))
  qed
qed

lemma write_response_effect:
  assumes "validate_batch_id batch_id = None" and "batches_dir self = Some bd"
  shows "set (drop (length (calls fs))
                (calls (snd (write_response dumps self fs batch_id response_json))))
           \<subseteq> {Stat (bd @ [batch_id]), Open (bd @ [batch_id, ''response.json''])}"
    and "nodes (snd (write_response dumps self fs batch_id response_json)) q \<noteq> nodes fs q \<Longrightarrow>
           q = normpath (bd @ [batch_id, ''response.json''])"
proof -
  let ?s = "logged (Stat (bd @ [batch_id])) fs"
  let ?t = "bd @ [batch_id, ''response.json'']"
  have found: "snd (write_response dumps self fs batch_id response_json)
      = (case dumps response_json of Inl e \<Rightarrow> ?s | Inr text \<Rightarrow> snd (write_file ?s ?t text))"
    if "os_stat fs (bd @ [batch_id]) = Inr n" for n
    unfolding write_response_found [OF assms that] by (simp split: prod.splits sum.splits)
  have stopped: "snd (write_response dumps self fs batch_id response_json) = ?s"
    if "os_stat fs (bd @ [batch_id]) = Inl e" for e
    by (simp add: write_response_not_entered [OF assms that])
  show "set (drop (length (calls fs))
                (calls (snd (write_response dumps self fs batch_id response_json))))
           \<subseteq> {Stat (bd @ [batch_id]), Open ?t}"
  proof (cases "os_stat fs (bd @ [batch_id])")
    case (Inl e)
    show ?thesis by (simp add: stopped [OF Inl])
  next
    case (Inr n)
    show ?thesis by (simp add: found [OF Inr] write_file_effect split: sum.splits)
  qed
  show "q = normpath ?t"
    if "nodes (snd (write_response dumps self fs batch_id response_json)) q \<noteq> nodes fs q"
  proof (cases "os_stat fs (bd @ [batch_id])")
    case (Inl e)
    with that show ?thesis by (simp add: stopped [OF Inl])
  next
    case (Inr n)
    show ?thesis
    proof (cases "dumps response_json")
      case (Inl e)
      with that show ?thesis by (simp add: found [OF Inr])
    next
      case (Inr out)
      with that have "nodes (snd (write_file ?s ?t out)) q \<noteq> nodes ?s q"
        by (simp add: found [OF \<open>os_stat fs (bd @ [batch_id]) = Inr n\<close>])
      then show ?thesis by (rule write_file_effect(2))
    qed
  qed
qed

subsection \<open>Initialisation\<close>

lemma create_run_dir_raises:
  "create_run_dir d self fs = (Inl e, self', fs') \<Longrightarrow> self' = self"
  unfolding create_run_dir_def Let_def
  by (auto split: prod.splits sum.splits)

lemma create_run_dir_returns:
  "create_run_dir d self fs = (Inr rd, self', fs') \<Longrightarrow>
     rd = truediv (base_dir self) d \<and>
     self' = self\<lparr>run_dir := Some rd, pages_dir := Some (rd @ [''pages'']),
                  batches_dir := Some (rd @ [''batches''])\<rparr>"
  unfolding create_run_dir_def Let_def
  by (auto split: prod.splits sum.splits simp: truediv_def parse_parts_def)

lemma laid_out_init: "laid_out (init_storage base pdf)"
  by (simp add: laid_out_def init_storage_def)

lemma laid_out_create_run_dir:
  assumes "laid_out self"
  shows "laid_out (fst (snd (create_run_dir d self fs)))"
proof (cases "create_run_dir d self fs")
  case (fields r self' fs')
  show ?thesis
  proof (cases r)
    case (Inl e)
    with fields create_run_dir_raises have "self' = self" by blast
    with fields assms show ?thesis by simp
  next
    case (Inr rd)
    with fields create_run_dir_returns [of d self fs rd self' fs'] show ?thesis
      by (simp add: laid_out_def)
  qed
qed

lemma laid_out_perform: "laid_out (fst st) \<Longrightarrow> laid_out (fst (perform dumps st r))"
  by (cases st; cases r) (simp_all add: laid_out_create_run_dir)

lemma laid_out_perform_all:
  "laid_out (fst st) \<Longrightarrow> laid_out (fst (perform_all dumps st rs))"
  unfolding perform_all_def
  by (induction rs arbitrary: st) (simp_all add: laid_out_perform)

lemma laid_out_fields: "laid_out self \<Longrightarrow> fields_all_unset self \<or> fields_all_set self"
  by (auto simp: laid_out_def fields_all_unset_def fields_all_set_def split: option.splits)

text \<open>
  C3. After every sequence of calls on a freshly constructed gateway, whether the calls
  returned or raised, \<open>run_dir\<close>, \<open>pages_dir\<close> and \<open>batches_dir\<close> are all unset or
  all set. When \<^verbatim>\<open>create_run_dir\<close> raises, whatever the reason, the object is left as it
  was: an uninitialised gateway stays uninitialised. The observable points are the returns
  and the raises of the methods; the three assignments at the end of \<^verbatim>\<open>create_run_dir\<close>
  cannot fail and nothing runs between them.
\<close>

theorem fields_set_together:
  "(case perform_all dumps (init_storage base pdf, fs0) rs of
      (self, fs) \<Rightarrow> fields_all_unset self \<or> fields_all_set self)
   \<and> (create_run_dir dir_name self fs = (Inl e, self', fs') \<longrightarrow>
        self' = self \<and> (fields_all_unset self \<longrightarrow> fields_all_unset self'))"
proof -
  have "laid_out (fst (perform_all dumps (init_storage base pdf, fs0) rs))"
    by (rule laid_out_perform_all) (simp add: laid_out_init)
  then have "fields_all_unset (fst (perform_all dumps (init_storage base pdf, fs0) rs))
      \<or> fields_all_set (fst (perform_all dumps (init_storage base pdf, fs0) rs))"
    by (rule laid_out_fields)
  then have inv: "case perform_all dumps (init_storage base pdf, fs0) rs of
      (self, fs) \<Rightarrow> fields_all_unset self \<or> fields_all_set self"
    by (simp add: case_prod_beta)
  have "self' = self" if "create_run_dir dir_name self fs = (Inl e, self', fs')"
    using that by (rule create_run_dir_raises)
  with inv show ?thesis by blast
qed

theorem fields_set_together_witness:
  "fst (create_run_dir example_clock lost_storage example_fs) = Inl (FileNotFoundError [])
   \<and> nodes (snd (snd (create_run_dir example_clock lost_storage example_fs)))
         [''runs'', example_clock, ''batches''] = Some Dir
   \<and> fst (snd (create_run_dir example_clock lost_storage example_fs)) = lost_storage
   \<and> fields_all_unset (fst (snd (create_run_dir example_clock lost_storage example_fs)))
   \<and> fields_all_set
        (fst (perform_all example_dumps (init_storage [''runs''] [''data'', ''plan.pdf''], example_fs)
           [WriteImage 0 ''png'', CreateRunDir example_clock, CreateBatch 0 2]))"
proof -
  let ?r = "create_run_dir example_clock lost_storage example_fs"
  have raised: "fst ?r = Inl (FileNotFoundError [])"
    by (simp add: run_eval lost_storage_def)
  have made: "nodes (snd (snd ?r)) [''runs'', example_clock, ''batches''] = Some Dir"
    by (simp add: run_eval lost_storage_def)
  have unset: "fields_all_unset lost_storage"
    by (simp add: fields_all_unset_def lost_storage_def init_storage_def)
  have eq: "?r = (Inl (FileNotFoundError []), fst (snd ?r), snd (snd ?r))"
    using raised by (metis prod.collapse)
  note t = fields_set_together [where dumps = example_dumps and base = "[''runs'']"
      and pdf = "[''data'', ''plan.pdf'']" and ?fs0.0 = example_fs
      and rs = "[WriteImage 0 ''png'', CreateRunDir example_clock, CreateBatch 0 2]"
      and dir_name = example_clock and self = lost_storage and fs = example_fs
      and e = "FileNotFoundError []" and self' = "fst (snd ?r)" and fs' = "snd (snd ?r)"]
  from t eq have same: "fst (snd ?r) = lost_storage" by blast
  have "\<not> fields_all_unset
        (fst (perform_all example_dumps (init_storage [''runs''] [''data'', ''plan.pdf''], example_fs)
           [WriteImage 0 ''png'', CreateRunDir example_clock, CreateBatch 0 2]))"
    by (simp add: perform_all_def write_image_def fields_all_unset_def run_eval)
  with t have "fields_all_set
        (fst (perform_all example_dumps (init_storage [''runs''] [''data'', ''plan.pdf''], example_fs)
           [WriteImage 0 ''png'', CreateRunDir example_clock, CreateBatch 0 2]))"
    by (simp add: case_prod_beta)
  with raised made same unset show ?thesis by simp
qed

subsection \<open>Calls before initialisation\<close>

lemma never_initialised:
  "fields_all_unset (fst st) \<Longrightarrow> \<not> init_succeeded dumps st rs \<Longrightarrow>
     fields_all_unset (fst (perform_all dumps st rs))"
  unfolding perform_all_def
proof (induction rs arbitrary: st)
  case Nil
  then show ?case by simp
next
  case (Cons r rs)
  obtain self fs where st: "st = (self, fs)" by (cases st)
  have "fields_all_unset (fst (perform dumps st r)) \<and> \<not> init_succeeded dumps (perform dumps st r) rs"
  proof (cases r)
    case (CreateRunDir d)
    obtain res self' fs' where c: "create_run_dir d self fs = (res, self', fs')"
      by (cases "create_run_dir d self fs")
    with Cons.prems(2) st CreateRunDir obtain e where "res = Inl e"
      by (cases res) auto
    with c have "self' = self" using create_run_dir_raises by blast
    with Cons.prems st CreateRunDir c show ?thesis by simp
  qed (use Cons.prems st in simp_all)
  then have "fields_all_unset (fst (foldl (perform dumps) (perform dumps st r) rs))"
    using Cons.IH by blast
  then show ?case by simp
qed

lemma unset_fields_fail:
  assumes "fields_all_unset self"
  shows "write_image self fs page_index data = (Inl not_initialized, fs)
       \<and> write_final_excel self fs data = (Inl not_initialized, fs)
       \<and> create_batch self fs start_page_index end_page_index
           = (Inl (if start_page_index > end_page_index
                   then ValueError ''start_page_index must be <= end_page_index''
                   else not_initialized), fs)
       \<and> write_prompt self fs batch_id content_md
           = (Inl (case validate_batch_id batch_id of
                     Some e \<Rightarrow> e | None \<Rightarrow> not_initialized), fs)
       \<and> write_response dumps self fs batch_id response_json
           = (Inl (case validate_batch_id batch_id of
                     Some e \<Rightarrow> e | None \<Rightarrow> not_initialized), fs)
       \<and> \<not> raised_os_error (fst (write_image self fs page_index data))
       \<and> \<not> raised_os_error (fst (write_final_excel self fs data))
       \<and> \<not> raised_os_error (fst (create_batch self fs start_page_index end_page_index))
       \<and> \<not> raised_os_error (fst (write_prompt self fs batch_id content_md))
       \<and> \<not> raised_os_error (fst (write_response dumps self fs batch_id response_json))"
proof -
  from assms have unset: "run_dir self = None" "pages_dir self = None" "batches_dir self = None"
    by (simp_all add: fields_all_unset_def)
  have img: "write_image self fs page_index data = (Inl not_initialized, fs)"
    by (simp add: write_image_def unset)
  have xls: "write_final_excel self fs data = (Inl not_initialized, fs)"
    by (simp add: write_final_excel_def unset)
  have bat: "create_batch self fs start_page_index end_page_index
           = (Inl (if start_page_index > end_page_index
                   then ValueError ''start_page_index must be <= end_page_index''
                   else not_initialized), fs)"
    by (simp add: create_batch_def unset)
  have pro: "write_prompt self fs batch_id content_md
           = (Inl (case validate_batch_id batch_id of
                     Some e \<Rightarrow> e | None \<Rightarrow> not_initialized), fs)"
    by (simp add: write_prompt_def unset split: option.splits)
  have res: "write_response dumps self fs batch_id response_json
           = (Inl (case validate_batch_id batch_id of
                     Some e \<Rightarrow> e | None \<Rightarrow> not_initialized), fs)"
    by (simp add: write_response_def unset split: option.splits)
  have ni: "\<not> is_os_error not_initialized"
    by (simp add: not_initialized_def)
  have va: "\<not> is_os_error (case validate_batch_id batch_id of
                     Some e \<Rightarrow> e | None \<Rightarrow> not_initialized)"
    using validate_batch_id_Some [of batch_id] ni by (auto split: option.splits)
  have "\<not> raised_os_error (fst (write_image self fs page_index data))"
    "\<not> raised_os_error (fst (write_final_excel self fs data))"
    "\<not> raised_os_error (fst (create_batch self fs start_page_index end_page_index))"
    "\<not> raised_os_error (fst (write_prompt self fs batch_id content_md))"
    "\<not> raised_os_error (fst (write_response dumps self fs batch_id response_json))"
    using ni va by (simp_all add: img xls bat pro res raised_os_error_def)
  with img xls bat pro res show ?thesis by blast
qed

text \<open>
  C2 (as amended). Take a gateway on which \<^verbatim>\<open>create_run_dir\<close> has never succeeded: the
  state after any sequence of calls on a freshly constructed object in which no
  \<^verbatim>\<open>create_run_dir\<close> returned. Its three directory fields are unset, and every write
  operation fails and leaves the filesystem, its log of system calls included, as it was,
  so no filesystem error can arise. \<^verbatim>\<open>write_image\<close> and \<^verbatim>\<open>write_final_excel\<close> raise the
  not-initialised error on every input. \<^verbatim>\<open>create_batch\<close> checks its range first and
  \<^verbatim>\<open>write_prompt\<close> and \<^verbatim>\<open>write_response\<close> check the identifier first: they raise the
  not-initialised error on the inputs that pass that check and the validation error on the
  others.
\<close>

theorem write_before_init:
  assumes "perform_all dumps (init_storage base pdf, fs0) rs = (self, fs)"
    and "\<not> init_succeeded dumps (init_storage base pdf, fs0) rs"
  shows "fields_all_unset self
       \<and> write_image self fs page_index data = (Inl not_initialized, fs)
       \<and> write_final_excel self fs data = (Inl not_initialized, fs)
       \<and> create_batch self fs start_page_index end_page_index
           = (Inl (if start_page_index > end_page_index
                   then ValueError ''start_page_index must be <= end_page_index''
                   else not_initialized), fs)
       \<and> write_prompt self fs batch_id content_md
           = (Inl (case validate_batch_id batch_id of
                     Some e \<Rightarrow> e | None \<Rightarrow> not_initialized), fs)
       \<and> write_response dumps self fs batch_id response_json
           = (Inl (case validate_batch_id batch_id of
                     Some e \<Rightarrow> e | None \<Rightarrow> not_initialized), fs)
       \<and> \<not> raised_os_error (fst (write_image self fs page_index data))
       \<and> \<not> raised_os_error (fst (write_final_excel self fs data))
       \<and> \<not> raised_os_error (fst (create_batch self fs start_page_index end_page_index))
       \<and> \<not> raised_os_error (fst (write_prompt self fs batch_id content_md))
       \<and> \<not> raised_os_error (fst (write_response dumps self fs batch_id response_json))"
proof -
  have "fields_all_unset (fst (init_storage base pdf, fs0))"
    by (simp add: fields_all_unset_def init_storage_def)
  then have "fields_all_unset (fst (perform_all dumps (init_storage base pdf, fs0) rs))"
    using assms(2) by (rule never_initialised)
  with assms(1) have u: "fields_all_unset self" by simp
  from u unset_fields_fail [OF u] show ?thesis by (rule conjI)
qed

theorem write_before_init_witness:
  "perform_all example_dumps (init_storage [''runs''] [''data'', ''lost.pdf''], example_fs)
       [CreateRunDir example_clock]
     = (lost_storage, snd (snd (create_run_dir example_clock lost_storage example_fs)))
   \<and> \<not> init_succeeded example_dumps (init_storage [''runs''] [''data'', ''lost.pdf''], example_fs)
         [CreateRunDir example_clock]
   \<and> write_image lost_storage (snd (snd (create_run_dir example_clock lost_storage example_fs)))
         0 ''png''
       = (Inl not_initialized, snd (snd (create_run_dir example_clock lost_storage example_fs)))
   \<and> write_final_excel lost_storage
         (snd (snd (create_run_dir example_clock lost_storage example_fs))) ''png''
       = (Inl not_initialized, snd (snd (create_run_dir example_clock lost_storage example_fs)))
   \<and> create_batch lost_storage (snd (snd (create_run_dir example_clock lost_storage example_fs)))
         0 2
       = (Inl not_initialized, snd (snd (create_run_dir example_clock lost_storage example_fs)))
   \<and> write_prompt lost_storage (snd (snd (create_run_dir example_clock lost_storage example_fs)))
         ''0000-0002'' ''# prompt''
       = (Inl not_initialized, snd (snd (create_run_dir example_clock lost_storage example_fs)))
   \<and> write_response example_dumps lost_storage
         (snd (snd (create_run_dir example_clock lost_storage example_fs))) ''0000-0002'' ''{}''
       = (Inl not_initialized, snd (snd (create_run_dir example_clock lost_storage example_fs)))"
proof -
  let ?r = "create_run_dir example_clock lost_storage example_fs"
  have raised: "fst ?r = Inl (FileNotFoundError [])"
    by (simp add: run_eval lost_storage_def)
  then have "?r = (Inl (FileNotFoundError []), fst (snd ?r), snd (snd ?r))"
    by (metis prod.collapse)
  then have same: "fst (snd ?r) = lost_storage"
    by (rule create_run_dir_raises)
  have h1: "perform_all example_dumps (init_storage [''runs''] [''data'', ''lost.pdf''], example_fs)
       [CreateRunDir example_clock] = (lost_storage, snd (snd ?r))"
    using same by (simp add: perform_all_def lost_storage_def [symmetric] prod_eq_iff)
  have h2: "\<not> init_succeeded example_dumps
      (init_storage [''runs''] [''data'', ''lost.pdf''], example_fs) [CreateRunDir example_clock]"
    using raised by (simp add: lost_storage_def [symmetric])
  have v: "validate_batch_id ''0000-0002'' = None"
    by (simp add: validate_batch_id_def allowed_def)
  note t = write_before_init [OF h1 h2, where page_index = 0
      and data = "''png''" and start_page_index = 0 and end_page_index = 2
      and batch_id = "''0000-0002''" and content_md = "''# prompt''"
      and response_json = "''{}''"]
  from t h1 h2 v show ?thesis by simp
qed

text \<open>
  The claim as first stated, "on every input the not-initialised error", fails: on a
  fresh gateway \<^verbatim>\<open>create_batch(2, 1)\<close> raises the range \<^verbatim>\<open>ValueError\<close>, and
  \<^verbatim>\<open>write_prompt("../x", ...)\<close> raises the identifier \<^verbatim>\<open>ValueError\<close>.
\<close>

theorem write_before_init_counterexample:
  "fields_all_unset example_storage
   \<and> create_batch example_storage example_fs 2 1
       = (Inl (ValueError ''start_page_index must be <= end_page_index''), example_fs)
   \<and> fst (create_batch example_storage example_fs 2 1) \<noteq> Inl not_initialized
   \<and> fst (write_prompt example_storage example_fs ''../x'' ''# prompt'') \<noteq> Inl not_initialized"
  by (simp add: create_batch_def write_prompt_def validate_batch_id_def not_initialized_def
      fields_all_unset_def example_storage_def init_storage_def)

subsection \<open>Rejected batch identifiers\<close>

text \<open>
  C7. For every string \<open>batch_id\<close> that is empty, or has no dash, or has a character
  outside the digits and the dash, \<^verbatim>\<open>write_prompt\<close> and \<^verbatim>\<open>write_response\<close> raise a
  \<^verbatim>\<open>ValueError\<close>, whatever the gateway's fields and the filesystem are, and the
  filesystem they leave is the one they were given, its log of system calls included: no
  read and no write went before the failure.
\<close>

theorem invalid_batch_id_rejected:
  assumes "batch_id = [] \<or> CHR ''-'' \<notin> set batch_id
             \<or> (\<exists>ch \<in> set batch_id. ch \<notin> set ''0123456789-'')"
  shows "\<exists>msg. write_prompt self fs batch_id content_md = (Inl (ValueError msg), fs)
             \<and> write_response dumps self fs batch_id response_json = (Inl (ValueError msg), fs)"
proof -
  from assms have "validate_batch_id batch_id \<noteq> None"
    unfolding validate_batch_id_None allowed_def by blast
  then obtain m where "validate_batch_id batch_id = Some (ValueError m)"
    using validate_batch_id_Some by blast
  then show ?thesis
    by (simp add: write_prompt_def write_response_def)
qed

theorem invalid_batch_id_rejected_witness:
  "(\<exists>ch \<in> set ''../../etc''. ch \<notin> set ''0123456789-'')
   \<and> (\<exists>msg. write_prompt (fst example_run) (snd example_run) ''../../etc'' ''# prompt''
                = (Inl (ValueError msg), snd example_run)
            \<and> write_response example_dumps (fst example_run) (snd example_run) ''../../etc'' ''{}''
                = (Inl (ValueError msg), snd example_run))"
proof -
  have h: "\<exists>ch \<in> set ''../../etc''. ch \<notin> set ''0123456789-''" by simp
  from h have "''../../etc'' = [] \<or> CHR ''-'' \<notin> set ''../../etc''
      \<or> (\<exists>ch \<in> set ''../../etc''. ch \<notin> set ''0123456789-'')" by blast
  note invalid_batch_id_rejected [OF this, where self = "fst example_run"
      and fs = "snd example_run" and content_md = "''# prompt''" and dumps = example_dumps
      and response_json = "''{}''"]
  with h show ?thesis by (rule conjI)
qed

subsection \<open>Artifacts of a batch that does not exist\<close>

lemma stat_error_Some:
  "stat_error fs p = Some e \<Longrightarrow> os_stat fs p = Inl e \<and> \<not> ignore_error e"
  by (auto simp: stat_error_def split: sum.splits if_splits)

lemma limited_run_fields:
  "fst limited_run =
     \<lparr>base_dir = [''runs''], pdf_path = [''data'', ''plan.pdf''],
      run_dir = Some [''runs'', example_clock],
      pages_dir = Some [''runs'', example_clock, ''pages''],
      batches_dir = Some [''runs'', example_clock, ''batches'']\<rparr>"
  by (simp add: run_eval limited_run_def limited_fs_def)

lemma limited_run_nodes:
  "nodes (snd limited_run) =
     [[''data''] \<mapsto> Dir, [''data'', ''plan.pdf''] \<mapsto> File ''%PDF'',
      [''runs''] \<mapsto> Dir, [''runs'', example_clock] \<mapsto> Dir,
      [''runs'', example_clock, ''pages''] \<mapsto> Dir,
      [''runs'', example_clock, ''batches''] \<mapsto> Dir,
      [''runs'', example_clock, ''input(plan).pdf''] \<mapsto> File ''%PDF'']"
  by (simp add: run_eval limited_run_def limited_fs_def)

lemma limited_run_refuse: "refuse (snd limited_run) = refuse limited_fs"
  using dirs_kept_create_run_dir [of limited_fs example_clock example_storage]
  by (simp add: dirs_kept_def limited_run_def)

lemma long_id_accepted: "validate_batch_id long_id = None"
  unfolding validate_batch_id_None
  by (simp add: long_id_def allowed_def)

lemma long_id_unreachable:
  "os_stat (snd limited_run) ([''runs'', example_clock, ''batches''] @ [long_id])
     = Inl (OSError 36)"
proof -
  have "long_id \<noteq> ''..''" using long_id_accepted by (rule accepted_component(3))
  then have n: "normpath [''runs'', example_clock, ''batches'', long_id]
      = [''runs'', example_clock, ''batches'', long_id]"
    using normpath_snoc [of long_id "[''runs'', example_clock, ''batches'']"]
    by (simp add: example_run_lookups)
  have "length long_id = 256" by (simp add: long_id_def)
  then show ?thesis
    by (simp add: os_stat_def n limited_run_refuse limited_fs_def)
qed

lemma long_id_missing:
  "lookup (snd limited_run) ([''runs'', example_clock, ''batches''] @ [long_id]) = None"
proof -
  have "long_id \<noteq> ''..''" using long_id_accepted by (rule accepted_component(3))
  then have n: "normpath [''runs'', example_clock, ''batches'', long_id]
      = [''runs'', example_clock, ''batches'', long_id]"
    using normpath_snoc [of long_id "[''runs'', example_clock, ''batches'']"]
    by (simp add: example_run_lookups)
  show ?thesis
    by (simp add: lookup_def Let_def n limited_run_nodes)
qed

text \<open>
  C9 (as amended). On an initialised gateway, take a \<open>batch_id\<close> that passes the safety
  check and whose directory is missing under the batches directory (no \<^verbatim>\<open>create_batch\<close>
  made it). When the operating system can carry out the existence check (the \<^verbatim>\<open>stat\<close> of
  the path fails with no error other than the ones \<^verbatim>\<open>Path.exists()\<close> answers with
  \<^verbatim>\<open>False\<close>), \<^verbatim>\<open>write_prompt\<close> and \<^verbatim>\<open>write_response\<close> raise the "batch not found"
  \<^verbatim>\<open>FileNotFoundError\<close>. When the check itself fails, its error is what they raise. In
  both cases their only system call is that \<^verbatim>\<open>stat\<close>: the tree of files and directories
  is unchanged.
\<close>

theorem missing_batch_not_found:
  assumes "validate_batch_id batch_id = None"
    and "batches_dir self = Some bd"
    and "lookup fs (bd @ [batch_id]) = None"
  shows "(stat_error fs (bd @ [batch_id]) = None \<longrightarrow>
          write_prompt self fs batch_id content_md
            = (Inl (batch_not_found (bd @ [batch_id])), logged (Stat (bd @ [batch_id])) fs)
          \<and> write_response dumps self fs batch_id response_json
            = (Inl (batch_not_found (bd @ [batch_id])), logged (Stat (bd @ [batch_id])) fs))
       \<and> (stat_error fs (bd @ [batch_id]) = Some e \<longrightarrow>
          write_prompt self fs batch_id content_md = (Inl e, logged (Stat (bd @ [batch_id])) fs)
          \<and> write_response dumps self fs batch_id response_json
            = (Inl e, logged (Stat (bd @ [batch_id])) fs))
       \<and> nodes (snd (write_prompt self fs batch_id content_md)) = nodes fs
       \<and> nodes (snd (write_response dumps self fs batch_id response_json)) = nodes fs"
proof -
  have found: "write_prompt self fs batch_id content_md
            = (Inl (batch_not_found (bd @ [batch_id])), logged (Stat (bd @ [batch_id])) fs)
          \<and> write_response dumps self fs batch_id response_json
            = (Inl (batch_not_found (bd @ [batch_id])), logged (Stat (bd @ [batch_id])) fs)"
    if "stat_error fs (bd @ [batch_id]) = None"
    using write_prompt_missing [OF assms that] write_response_missing [OF assms that] by simp
  have raised: "write_prompt self fs batch_id content_md = (Inl e, logged (Stat (bd @ [batch_id])) fs)
          \<and> write_response dumps self fs batch_id response_json
            = (Inl e, logged (Stat (bd @ [batch_id])) fs)"
    if "stat_error fs (bd @ [batch_id]) = Some e"
  proof -
    from stat_error_Some [OF that]
    have s: "os_stat fs (bd @ [batch_id]) = Inl e" and i: "\<not> ignore_error e" by simp_all
    show ?thesis
      using write_prompt_not_entered [OF assms(1,2) s, of content_md]
        write_response_not_entered [OF assms(1,2) s, of dumps response_json] i
      by simp
  qed
  have same: "nodes (snd (write_prompt self fs batch_id content_md)) = nodes fs
       \<and> nodes (snd (write_response dumps self fs batch_id response_json)) = nodes fs"
  proof (cases "os_stat fs (bd @ [batch_id])")
    case (Inl x)
    show ?thesis
      by (simp add: write_prompt_not_entered [OF assms(1,2) Inl]
          write_response_not_entered [OF assms(1,2) Inl])
  next
    case (Inr n)
    with assms(3) show ?thesis
      by (auto simp: os_stat_def split: option.splits refusal.splits)
  qed
  from found raised same show ?thesis by blast
qed

theorem missing_batch_not_found_witness:
  "validate_batch_id ''0003-0005'' = None
   \<and> batches_dir (fst example_run) = Some [''runs'', example_clock, ''batches'']
   \<and> lookup (snd example_run) [''runs'', example_clock, ''batches'', ''0003-0005''] = None
   \<and> stat_error (snd example_run) [''runs'', example_clock, ''batches'', ''0003-0005''] = None
   \<and> fst (write_prompt (fst example_run) (snd example_run) ''0003-0005'' ''# prompt'')
       = Inl (FileNotFoundError
           ''Batch directory does not exist: /runs/04_11_2026-10_30_00/batches/0003-0005. Call create_batch first.'')
   \<and> nodes (snd (write_response example_dumps (fst example_run) (snd example_run) ''0003-0005'' ''{}''))
       = nodes (snd example_run)
   \<and> stat_error (snd limited_run) ([''runs'', example_clock, ''batches''] @ [long_id])
       = Some (OSError 36)
   \<and> write_prompt (fst limited_run) (snd limited_run) long_id ''# prompt''
       = (Inl (OSError 36),
          logged (Stat ([''runs'', example_clock, ''batches''] @ [long_id])) (snd limited_run))"
proof -
  have lb: "batches_dir (fst limited_run) = Some [''runs'', example_clock, ''batches'']"
    by (simp add: limited_run_fields)
  have lq: "stat_error (snd limited_run) ([''runs'', example_clock, ''batches''] @ [long_id])
       = Some (OSError 36)"
    unfolding stat_error_def long_id_unreachable by simp
  note u = missing_batch_not_found [OF long_id_accepted lb long_id_missing,
      where content_md = "''# prompt''" and dumps = example_dumps and response_json = "''{}''"
      and e = "OSError 36"]
  note u2 = u [THEN conjunct2, THEN conjunct1, rule_format, OF lq, THEN conjunct1]
  have v: "validate_batch_id ''0003-0005'' = None"
    by (simp add: validate_batch_id_def allowed_def)
  have b: "batches_dir (fst example_run) = Some [''runs'', example_clock, ''batches'']"
    by (simp add: example_run_fields)
  have l: "lookup (snd example_run) ([''runs'', example_clock, ''batches''] @ [''0003-0005'']) = None"
    by (simp add: lookup_def normpath_def example_run_nodes example_clock_def Let_def)
  have q: "stat_error (snd example_run) ([''runs'', example_clock, ''batches''] @ [''0003-0005'']) = None"
    using l by (simp add: stat_error_def os_stat_def example_run_refuse)
  note t = missing_batch_not_found [OF v b l, where content_md = "''# prompt''"
      and dumps = example_dumps and response_json = "''{}''"]
  note t1 = t [THEN conjunct1, rule_format, OF q, THEN conjunct1]
  note t4 = t [THEN conjunct2, THEN conjunct2, THEN conjunct2]
  have m: "batch_not_found ([''runs'', example_clock, ''batches''] @ [''0003-0005''])
      = FileNotFoundError
           ''Batch directory does not exist: /runs/04_11_2026-10_30_00/batches/0003-0005. Call create_batch first.''"
    by (simp add: batch_not_found_def path_str_def example_clock_def)
  from t1 t4 v b l q m have "validate_batch_id ''0003-0005'' = None
   \<and> batches_dir (fst example_run) = Some [''runs'', example_clock, ''batches'']
   \<and> lookup (snd example_run) [''runs'', example_clock, ''batches'', ''0003-0005''] = None
   \<and> stat_error (snd example_run) [''runs'', example_clock, ''batches'', ''0003-0005''] = None
   \<and> fst (write_prompt (fst example_run) (snd example_run) ''0003-0005'' ''# prompt'')
       = Inl (FileNotFoundError
           ''Batch directory does not exist: /runs/04_11_2026-10_30_00/batches/0003-0005. Call create_batch first.'')
   \<and> nodes (snd (write_response example_dumps (fst example_run) (snd example_run) ''0003-0005'' ''{}''))
       = nodes (snd example_run)" by simp
  with lq u2 show ?thesis by blast
qed

text \<open>
  The claim as first stated promises "batch not found" for every accepted identifier whose
  directory was never created. An identifier of 256 bytes is accepted, and its directory
  cannot even exist where names are limited to 255 bytes; there the existence check
  itself fails, and both writes raise its \<^verbatim>\<open>OSError\<close> (36) instead.
\<close>

theorem missing_batch_not_found_counterexample:
  "validate_batch_id long_id = None
   \<and> fields_all_set (fst limited_run)
   \<and> lookup (snd limited_run) ([''runs'', example_clock, ''batches''] @ [long_id]) = None
   \<and> fst (write_prompt (fst limited_run) (snd limited_run) long_id ''# prompt'')
       = Inl (OSError 36)
   \<and> fst (write_response example_dumps (fst limited_run) (snd limited_run) long_id ''{}'')
       = Inl (OSError 36)
   \<and> OSError 36 \<noteq> batch_not_found ([''runs'', example_clock, ''batches''] @ [long_id])"
proof -
  have b: "batches_dir (fst limited_run) = Some [''runs'', example_clock, ''batches'']"
    by (simp add: limited_run_fields)
  have s: "fields_all_set (fst limited_run)"
    by (simp add: fields_all_set_def limited_run_fields)
  note l = long_id_missing
  note p = write_prompt_not_entered [OF long_id_accepted b long_id_unreachable,
      of "''# prompt''"]
  note r = write_response_not_entered [OF long_id_accepted b long_id_unreachable,
      of example_dumps "''{}''"]
  from long_id_accepted s l p r show ?thesis
    by (simp add: batch_not_found_def)
qed

subsection \<open>Creating a batch twice\<close>

lemma example_batch_created:
  "create_batch (fst example_run) (snd example_run) 0 2
     = (Inr ''0000-0002'',
        (logged (Mkdir [''runs'', example_clock, ''batches'', ''0000-0002'']) (snd example_run))
          \<lparr>nodes := (nodes (snd example_run))
             ([''runs'', example_clock, ''batches'', ''0000-0002''] \<mapsto> Dir)\<rparr>)"
proof -
  let ?p = "[''runs'', example_clock, ''batches'', ''0000-0002'']"
  have n: "normpath ?p = ?p"
    by (simp add: normpath_def example_clock_def)
  have "path_mkdir (snd example_run) ?p True False
      = (Inr (), (logged (Mkdir ?p) (snd example_run))
            \<lparr>nodes := (nodes (snd example_run))(normpath ?p \<mapsto> Dir)\<rparr>)"
    by (rule path_mkdir_fresh)
      (simp_all add: n lookup_def normpath_def Let_def example_run_nodes example_run_refuse
        example_clock_def)
  then show ?thesis
    by (simp add: create_batch_def example_run_fields example_names truediv_batch_name [of _ 0 2, simplified example_names] n Let_def)
qed

text \<open>
  C8 (as amended). Once \<^verbatim>\<open>create_batch(start, end)\<close> has returned, a later call with
  the same pair in the same run fails with \<^verbatim>\<open>FileExistsError\<close> and changes no file or
  directory, whatever calls the client made on the gateway in between, returned or raised.
  The same run means that the gateway still works in the same batches directory: no
  \<^verbatim>\<open>create_run_dir\<close> in between has moved it to a new run.
\<close>

theorem duplicate_batch_refused:
  assumes "create_batch self fs start_page_index end_page_index = (Inr batch_id, fs1)"
    and "perform_all dumps (self, fs1) rs = (self', fs2)"
    and "batches_dir self' = batches_dir self"
  shows "fst (create_batch self' fs2 start_page_index end_page_index) = Inl FileExistsError
       \<and> nodes (snd (create_batch self' fs2 start_page_index end_page_index)) = nodes fs2"
proof -
  from assms(1) obtain bd where bd: "batches_dir self = Some bd"
    and le: "start_page_index \<le> end_page_index"
    by (cases "batches_dir self") (auto simp: create_batch_def split: if_splits)
  let ?p = "truediv bd (batch_name start_page_index end_page_index)"
  from assms(1) bd le obtain u where "path_mkdir fs ?p True False = (Inr u, fs1)"
    by (auto simp: create_batch_def Let_def split: prod.splits sum.splits)
  then obtain fsx where made: "os_mkdir fsx ?p = (Inr u, fs1)"
    using path_mkdir_returns by blast
  note r = os_mkdir_returns [OF made]
  have here: "nodes fs1 (normpath ?p) = Some Dir"
    by (simp add: r(5))
  have above: "lookup fs1 (butlast (normpath ?p)) = Some Dir"
    unfolding r(5) using r(1) r(2) by (rule lookup_after_mkdir(2))
  have kept: "dirs_kept fs1 fs2"
    using dirs_kept_perform_all [of "(self, fs1)" dumps rs] assms(2) by simp
  from kept here have here2: "nodes fs2 (normpath ?p) \<noteq> None"
    by (simp add: dirs_kept_def)
  from kept r(4) have free: "refuse fs2 (normpath ?p) = None"
    by (simp add: dirs_kept_def r(5))
  from kept above have above2: "lookup fs2 (butlast (normpath ?p)) = Some Dir"
    by (rule dirs_kept_lookup)
  have "path_mkdir fs2 ?p True False = (Inl FileExistsError, logged (Mkdir ?p) fs2)"
    using r(1) above2 here2 free by (rule path_mkdir_exists)
  then have "create_batch self' fs2 start_page_index end_page_index
      = (Inl FileExistsError, logged (Mkdir ?p) fs2)"
    using le bd assms(3) by (simp add: create_batch_def Let_def)
  then show ?thesis by simp
qed

theorem duplicate_batch_refused_witness:
  "fst (create_batch (fst example_run) (snd example_run) 0 2) = Inr ''0000-0002''
   \<and> fst (create_batch
        (fst (perform_all example_dumps
               (fst example_run, snd (create_batch (fst example_run) (snd example_run) 0 2))
               [WritePrompt ''0000-0002'' ''# prompt'', WriteImage 0 ''png'']))
        (snd (perform_all example_dumps
               (fst example_run, snd (create_batch (fst example_run) (snd example_run) 0 2))
               [WritePrompt ''0000-0002'' ''# prompt'', WriteImage 0 ''png'']))
        0 2) = Inl FileExistsError"
proof -
  let ?fs1 = "snd (create_batch (fst example_run) (snd example_run) 0 2)"
  let ?st = "perform_all example_dumps (fst example_run, ?fs1)
               [WritePrompt ''0000-0002'' ''# prompt'', WriteImage 0 ''png'']"
  have first: "fst (create_batch (fst example_run) (snd example_run) 0 2) = Inr ''0000-0002''"
    by (simp add: example_batch_created)
  then have h1: "create_batch (fst example_run) (snd example_run) 0 2 = (Inr ''0000-0002'', ?fs1)"
    by (metis prod.collapse)
  have h2: "?st = (fst ?st, snd ?st)" by simp
  have h3: "batches_dir (fst ?st) = batches_dir (fst example_run)"
    by (simp add: perform_all_def)
  from duplicate_batch_refused [OF h1 h2 h3] first show ?thesis by simp
qed

text \<open>
  Without the proviso the claim fails: after a second \<^verbatim>\<open>create_run_dir\<close>, one second
  later, the gateway works in a new batches directory, and \<^verbatim>\<open>create_batch(0, 2)\<close>
  returns its identifier again.
\<close>

theorem duplicate_batch_refused_counterexample:
  "fst (create_batch (fst example_run) (snd example_run) 0 2) = Inr ''0000-0002''
   \<and> fst (create_batch
        (fst (perform_all example_dumps
               (fst example_run, snd (create_batch (fst example_run) (snd example_run) 0 2))
               [CreateRunDir later_clock]))
        (snd (perform_all example_dumps
               (fst example_run, snd (create_batch (fst example_run) (snd example_run) 0 2))
               [CreateRunDir later_clock]))
        0 2) = Inr ''0000-0002''
   \<and> batches_dir (fst (perform_all example_dumps
               (fst example_run, snd (create_batch (fst example_run) (snd example_run) 0 2))
               [CreateRunDir later_clock])) \<noteq> batches_dir (fst example_run)"
proof -
  define fs1 where "fs1 = snd (create_batch (fst example_run) (snd example_run) 0 2)"
  have e: "fs1 = (logged (Mkdir [''runs'', example_clock, ''batches'', ''0000-0002''])
                    (snd example_run))
        \<lparr>nodes := (nodes (snd example_run))
           ([''runs'', example_clock, ''batches'', ''0000-0002''] \<mapsto> Dir)\<rparr>"
    by (simp add: fs1_def example_batch_created)
  let ?st = "perform_all example_dumps (fst example_run, fs1) [CreateRunDir later_clock]"
  let ?bd = "[''runs'', later_clock, ''batches'']"
  have first: "fst (create_batch (fst example_run) (snd example_run) 0 2) = Inr ''0000-0002''"
    by (simp add: example_batch_created)
  have b: "batches_dir (fst ?st) = Some ?bd"
    by (simp add: e step_eval)
  have d: "lookup (snd ?st) ?bd = Some Dir"
    by (simp add: e step_eval)
  have f: "lookup (snd ?st) (?bd @ [batch_name 0 2]) = None"
    by (simp add: example_names e step_eval)
  have r: "refuse (snd ?st) (normpath ?bd @ [batch_name 0 2]) = None"
    using dirs_kept_perform_all [of "(fst example_run, fs1)" example_dumps
        "[CreateRunDir later_clock]"]
    by (simp add: dirs_kept_def e example_run_refuse)
  have "(0::int) \<le> 2" by simp
  from create_batch_fresh [OF this b d f r]
  have again: "fst (create_batch (fst ?st) (snd ?st) 0 2) = Inr ''0000-0002''"
    by (simp add: example_names)
  have moved: "batches_dir (fst ?st) \<noteq> batches_dir (fst example_run)"
    unfolding b by (simp add: example_run_fields example_clock_def later_clock_def)
  from first again moved show ?thesis
    unfolding fs1_def by (intro conjI)
qed

subsection \<open>What \<^verbatim>\<open>create_batch\<close> returns\<close>

text \<open>
  C4 (as amended). For every pair of integers \<open>start \<le> end\<close>, on an initialised
  gateway whose batches directory exists and has no entry of the batch's name yet, and
  where the environment does not refuse the creation, \<^verbatim>\<open>create_batch(start, end)\<close>
  returns exactly the string \<^verbatim>\<open>{start:04d}-{end:04d}\<close>; that string is one path
  component, and afterwards a directory of that name is directly under the batches
  directory.
\<close>

theorem create_batch_names_directory:
  assumes "start_page_index \<le> end_page_index"
    and "batches_dir self = Some bd"
    and "lookup fs bd = Some Dir"
    and "lookup fs (bd @ [batch_name start_page_index end_page_index]) = None"
    and "refuse fs (normpath bd @ [batch_name start_page_index end_page_index]) = None"
  shows "fst (create_batch self fs start_page_index end_page_index)
           = Inr (fmt04d start_page_index @ ''-'' @ fmt04d end_page_index)
       \<and> truediv bd (fmt04d start_page_index @ ''-'' @ fmt04d end_page_index)
           = bd @ [fmt04d start_page_index @ ''-'' @ fmt04d end_page_index]
       \<and> lookup (snd (create_batch self fs start_page_index end_page_index))
            (bd @ [fmt04d start_page_index @ ''-'' @ fmt04d end_page_index]) = Some Dir"
proof -
  let ?id = "batch_name start_page_index end_page_index"
  have "?id \<noteq> ''..''" using batch_name_accepted by (rule accepted_component(3))
  then have n: "normpath (bd @ [?id]) = normpath bd @ [?id]" by (rule normpath_snoc)
  have "lookup (snd (create_batch self fs start_page_index end_page_index)) (bd @ [?id]) = Some Dir"
    unfolding create_batch_fresh [OF assms] snd_conv
    by (rule lookup_new_dir) (simp_all add: n)
  moreover have "fst (create_batch self fs start_page_index end_page_index) = Inr ?id"
    by (simp add: create_batch_fresh [OF assms])
  moreover have "truediv bd ?id = bd @ [?id]" by (rule truediv_batch_name)
  ultimately show ?thesis by (simp add: batch_name_def)
qed

theorem create_batch_names_directory_witness:
  "fst (create_batch (fst example_run) (snd example_run) 0 2) = Inr ''0000-0002''
   \<and> truediv [''runs'', example_clock, ''batches''] ''0000-0002''
       = [''runs'', example_clock, ''batches'', ''0000-0002'']
   \<and> lookup (snd (create_batch (fst example_run) (snd example_run) 0 2))
        [''runs'', example_clock, ''batches'', ''0000-0002''] = Some Dir"
proof -
  have h1: "(0::int) \<le> 2" by simp
  have h2: "batches_dir (fst example_run) = Some [''runs'', example_clock, ''batches'']"
    by (simp add: example_run_fields)
  have h3: "lookup (snd example_run) [''runs'', example_clock, ''batches''] = Some Dir"
    by (rule example_run_lookups)
  have h4: "lookup (snd example_run) ([''runs'', example_clock, ''batches''] @ [batch_name 0 2]) = None"
    by (simp add: lookup_def normpath_def Let_def example_run_nodes example_clock_def example_names)
  have h5: "refuse (snd example_run)
      (normpath [''runs'', example_clock, ''batches''] @ [batch_name 0 2]) = None"
    by (simp add: example_run_refuse)
  have f: "fmt04d 0 @ ''-'' @ fmt04d 2 = ''0000-0002''"
    using example_names(1) by (simp add: batch_name_def)
  from create_batch_names_directory [OF h1 h2 h3 h4 h5] show ?thesis
    unfolding f by simp
qed

text \<open>
  Without the proviso the claim fails: on an initialised gateway, with \<open>0 \<le> 2\<close>, the
  second \<^verbatim>\<open>create_batch(0, 2)\<close> raises \<^verbatim>\<open>FileExistsError\<close> and returns nothing.
\<close>

theorem create_batch_names_directory_counterexample:
  "fields_all_set (fst example_run) \<and> (0::int) \<le> 2
   \<and> fst (create_batch (fst example_run)
           (snd (create_batch (fst example_run) (snd example_run) 0 2)) 0 2)
       = Inl FileExistsError
   \<and> fst (create_batch (fst example_run)
           (snd (create_batch (fst example_run) (snd example_run) 0 2)) 0 2)
       \<noteq> Inr ''0000-0002''"
proof -
  let ?p = "[''runs'', example_clock, ''batches'', ''0000-0002'']"
  let ?fs1 = "snd (create_batch (fst example_run) (snd example_run) 0 2)"
  have n: "normpath ?p = ?p" by (simp add: normpath_def example_clock_def)
  have "path_mkdir ?fs1 ?p True False = (Inl FileExistsError, logged (Mkdir ?p) ?fs1)"
    by (rule path_mkdir_exists)
      (simp_all add: n example_batch_created lookup_def Let_def normpath_def example_run_nodes
        example_run_refuse example_clock_def)
  then have "fst (create_batch (fst example_run) ?fs1 0 2) = Inl FileExistsError"
    by (simp add: create_batch_def example_run_fields example_names Let_def
        truediv_batch_name [of _ 0 2, simplified example_names])
  moreover have "fields_all_set (fst example_run)"
    by (simp add: fields_all_set_def example_run_fields)
  ultimately show ?thesis by simp
qed

subsection \<open>Negative page indices\<close>

lemma example_negative_batch:
  "create_batch (fst example_run) (snd example_run) (- 2) (- 1)
     = (Inr ''-002--001'',
        (logged (Mkdir [''runs'', example_clock, ''batches'', ''-002--001'']) (snd example_run))
          \<lparr>nodes := (nodes (snd example_run))
             ([''runs'', example_clock, ''batches'', ''-002--001''] \<mapsto> Dir)\<rparr>)"
proof -
  have h1: "(- 2::int) \<le> - 1" by simp
  have h2: "batches_dir (fst example_run) = Some [''runs'', example_clock, ''batches'']"
    by (simp add: example_run_fields)
  have h3: "lookup (snd example_run) [''runs'', example_clock, ''batches''] = Some Dir"
    by (rule example_run_lookups)
  have h4: "lookup (snd example_run)
      ([''runs'', example_clock, ''batches''] @ [batch_name (- 2) (- 1)]) = None"
    by (simp add: lookup_def normpath_def Let_def example_run_nodes example_clock_def example_names)
  have h5: "refuse (snd example_run)
      (normpath [''runs'', example_clock, ''batches''] @ [batch_name (- 2) (- 1)]) = None"
    by (simp add: example_run_refuse)
  show ?thesis
    using create_batch_fresh [OF h1 h2 h3 h4 h5]
    by (simp add: example_names example_run_lookups)
qed

text \<open>
  C10 (as amended). \<^verbatim>\<open>create_batch\<close> has no check that its indices are non-negative.
  For every pair of negative integers \<open>start \<le> end\<close>, on an initialised gateway whose
  batches directory exists and has no entry of the batch's name yet, and where the
  environment does not refuse the creation, it returns the identifier built from the two
  signed numbers, each a minus sign followed by the digits padded to three, joined by a
  dash. That identifier passes the safety check, and \<^verbatim>\<open>write_prompt\<close> and
  \<^verbatim>\<open>write_response\<close> on it get past their checks: their outcome is the outcome of
  writing the file in the new directory.
\<close>

theorem negative_batch_accepted:
  assumes "start_page_index \<le> end_page_index" and "end_page_index < 0"
    and "batches_dir self = Some bd"
    and "lookup fs bd = Some Dir"
    and "lookup fs (bd @ [batch_name start_page_index end_page_index]) = None"
    and "refuse fs (normpath bd @ [batch_name start_page_index end_page_index]) = None"
  shows "fst (create_batch self fs start_page_index end_page_index)
           = Inr (batch_name start_page_index end_page_index)
       \<and> batch_name start_page_index end_page_index
           = (CHR ''-'' # zfill 3 (str_nat (nat (- start_page_index)))) @ ''-''
             @ (CHR ''-'' # zfill 3 (str_nat (nat (- end_page_index))))
       \<and> validate_batch_id (batch_name start_page_index end_page_index) = None
       \<and> write_prompt self (snd (create_batch self fs start_page_index end_page_index))
            (batch_name start_page_index end_page_index) content_md
           = (case write_file
                     (logged (Stat (bd @ [batch_name start_page_index end_page_index]))
                        (snd (create_batch self fs start_page_index end_page_index)))
                     (bd @ [batch_name start_page_index end_page_index, ''prompt.md''])
                     content_md of
                (Inl e, fs2) \<Rightarrow> (Inl e, fs2)
              | (Inr u, fs2) \<Rightarrow>
                  (Inr (bd @ [batch_name start_page_index end_page_index, ''prompt.md'']), fs2))
       \<and> write_response dumps self (snd (create_batch self fs start_page_index end_page_index))
            (batch_name start_page_index end_page_index) response_json
           = (case dumps response_json of
                Inl e \<Rightarrow>
                  (Inl e, logged (Stat (bd @ [batch_name start_page_index end_page_index]))
                            (snd (create_batch self fs start_page_index end_page_index)))
              | Inr text \<Rightarrow>
                  (case write_file
                          (logged (Stat (bd @ [batch_name start_page_index end_page_index]))
                             (snd (create_batch self fs start_page_index end_page_index)))
                          (bd @ [batch_name start_page_index end_page_index, ''response.json''])
                          text of
                     (Inl e, fs2) \<Rightarrow> (Inl e, fs2)
                   | (Inr u, fs2) \<Rightarrow>
                       (Inr (bd @ [batch_name start_page_index end_page_index, ''response.json'']),
                        fs2)))"
proof -
  let ?id = "batch_name start_page_index end_page_index"
  let ?fs1 = "snd (create_batch self fs start_page_index end_page_index)"
  note fresh = create_batch_fresh [OF assms(1) assms(3-6)]
  have ret: "fst (create_batch self fs start_page_index end_page_index) = Inr ?id"
    by (simp add: fresh)
  have neg: "start_page_index < 0" using assms(1,2) by simp
  have shape: "?id = (CHR ''-'' # zfill 3 (str_nat (nat (- start_page_index)))) @ ''-''
             @ (CHR ''-'' # zfill 3 (str_nat (nat (- end_page_index))))"
    unfolding batch_name_def fmt04d_negative [OF neg] fmt04d_negative [OF assms(2)] by simp
  have ok: "validate_batch_id ?id = None" by (rule batch_name_accepted)
  have "?id \<noteq> ''..''" using ok by (rule accepted_component(3))
  then have n: "normpath (bd @ [?id]) = normpath bd @ [?id]" by (rule normpath_snoc)
  have dir: "lookup ?fs1 (bd @ [?id]) = Some Dir"
    unfolding fresh snd_conv by (rule lookup_new_dir) (simp_all add: n)
  have "refuse ?fs1 (normpath (bd @ [?id])) = None"
    using assms(6) by (simp add: fresh n)
  then have there: "os_stat ?fs1 (bd @ [?id]) = Inr Dir"
    by (simp add: os_stat_plain dir)
  note p = write_prompt_found [OF ok assms(3) there, of content_md]
  note r = write_response_found [OF ok assms(3) there, of dumps response_json]
  from ret shape ok p r show ?thesis by (intro conjI)
qed

theorem negative_batch_accepted_witness:
  "fst (create_batch (fst example_run) (snd example_run) (- 2) (- 1)) = Inr ''-002--001''
   \<and> validate_batch_id ''-002--001'' = None
   \<and> fst (write_prompt (fst example_run)
           (snd (create_batch (fst example_run) (snd example_run) (- 2) (- 1)))
           ''-002--001'' ''# prompt'')
       = Inr [''runs'', example_clock, ''batches'', ''-002--001'', ''prompt.md'']
   \<and> fst (write_response example_dumps (fst example_run)
           (snd (create_batch (fst example_run) (snd example_run) (- 2) (- 1)))
           ''-002--001'' ''{}'')
       = Inr [''runs'', example_clock, ''batches'', ''-002--001'', ''response.json'']"
proof -
  let ?fs1 = "snd (create_batch (fst example_run) (snd example_run) (- 2) (- 1))"
  let ?d = "[''runs'', example_clock, ''batches'', ''-002--001'']"
  have h1: "(- 2::int) \<le> - 1" and h1': "(- 1::int) < 0" by simp_all
  have h2: "batches_dir (fst example_run) = Some [''runs'', example_clock, ''batches'']"
    by (simp add: example_run_fields)
  have h3: "lookup (snd example_run) [''runs'', example_clock, ''batches''] = Some Dir"
    by (rule example_run_lookups)
  have h4: "lookup (snd example_run)
      ([''runs'', example_clock, ''batches''] @ [batch_name (- 2) (- 1)]) = None"
    by (simp add: lookup_def normpath_def Let_def example_run_nodes example_clock_def example_names)
  have h5: "refuse (snd example_run)
      (normpath [''runs'', example_clock, ''batches''] @ [batch_name (- 2) (- 1)]) = None"
    by (simp add: example_run_refuse)
  note t = negative_batch_accepted [OF h1 h1' h2 h3 h4 h5, where content_md = "''# prompt''"
      and dumps = example_dumps and response_json = "''{}''", unfolded example_names]
  have wp: "write_file (logged (Stat ?d) ?fs1) (?d @ [''prompt.md'']) ''# prompt''
      = (Inr (), (logged (Open (?d @ [''prompt.md''])) (logged (Stat ?d) ?fs1))
           \<lparr>nodes := (nodes (logged (Stat ?d) ?fs1))
              (normpath (?d @ [''prompt.md'']) \<mapsto> File ''# prompt'')\<rparr>)"
    by (rule write_file_fresh)
      (simp_all add: example_negative_batch lookup_def normpath_def Let_def example_run_nodes
        example_run_refuse example_clock_def)
  have wr: "write_file (logged (Stat ?d) ?fs1) (?d @ [''response.json'']) ''{}''
      = (Inr (), (logged (Open (?d @ [''response.json''])) (logged (Stat ?d) ?fs1))
           \<lparr>nodes := (nodes (logged (Stat ?d) ?fs1))
              (normpath (?d @ [''response.json'']) \<mapsto> File ''{}'')\<rparr>)"
    by (rule write_file_fresh)
      (simp_all add: example_negative_batch lookup_def normpath_def Let_def example_run_nodes
        example_run_refuse example_clock_def)
  note c1 = t [THEN conjunct1]
  note c3 = t [THEN conjunct2, THEN conjunct2, THEN conjunct1]
  note c4 = t [THEN conjunct2, THEN conjunct2, THEN conjunct2, THEN conjunct1]
  note c5 = t [THEN conjunct2, THEN conjunct2, THEN conjunct2, THEN conjunct2]
  from c1 c3 c4 c5 wp wr show ?thesis
    by (simp add: example_dumps_def)
qed

text \<open>
  Without the proviso the claim fails: the second \<^verbatim>\<open>create_batch(-2, -1)\<close> on an
  initialised gateway does not succeed.
\<close>

theorem negative_batch_accepted_counterexample:
  "fields_all_set (fst example_run) \<and> (- 2::int) \<le> - 1 \<and> (- 1::int) < 0
   \<and> fst (create_batch (fst example_run)
           (snd (create_batch (fst example_run) (snd example_run) (- 2) (- 1))) (- 2) (- 1))
       = Inl FileExistsError"
proof -
  let ?p = "[''runs'', example_clock, ''batches'', ''-002--001'']"
  let ?fs1 = "snd (create_batch (fst example_run) (snd example_run) (- 2) (- 1))"
  have n: "normpath ?p = ?p" by (simp add: normpath_def example_clock_def)
  have "path_mkdir ?fs1 ?p True False = (Inl FileExistsError, logged (Mkdir ?p) ?fs1)"
    by (rule path_mkdir_exists)
      (simp_all add: n example_negative_batch lookup_def Let_def normpath_def example_run_nodes
        example_run_refuse example_clock_def)
  then have "fst (create_batch (fst example_run) ?fs1 (- 2) (- 1)) = Inl FileExistsError"
    by (simp add: create_batch_def example_run_fields example_names Let_def
        truediv_batch_name [of _ "- 2" "- 1", simplified example_names])
  moreover have "fields_all_set (fst example_run)"
    by (simp add: fields_all_set_def example_run_fields)
  ultimately show ?thesis by simp
qed

subsection \<open>Validation and the filesystem\<close>

lemma write_image_any_index:
  assumes "pages_dir self = Some pd"
  shows "write_image self fs page_index data
     = (case write_file fs (pd @ [page_name page_index]) data of
          (Inl e, fs1) \<Rightarrow> (Inl e, fs1)
        | (Inr u, fs1) \<Rightarrow> (Inr (pd @ [page_name page_index]), fs1))"
  using assms by (simp add: write_image_def truediv_page_name Let_def)

lemma example_negative_page_file:
  "write_file (snd example_run) [''runs'', example_clock, ''pages'', ''page_-001.png''] ''png''
     = (Inr (),
        (logged (Open [''runs'', example_clock, ''pages'', ''page_-001.png'']) (snd example_run))
          \<lparr>nodes := (nodes (snd example_run))
             ([''runs'', example_clock, ''pages'', ''page_-001.png''] \<mapsto> File ''png'')\<rparr>)"
proof -
  let ?t = "[''runs'', example_clock, ''pages'', ''page_-001.png'']"
  have n: "normpath ?t = ?t" by (simp add: normpath_def example_clock_def)
  have "write_file (snd example_run) ?t ''png''
      = (Inr (), (logged (Open ?t) (snd example_run))
           \<lparr>nodes := (nodes (snd example_run))(normpath ?t \<mapsto> File ''png'')\<rparr>)"
    by (rule write_file_fresh)
      (simp_all add: n lookup_def normpath_def Let_def example_run_nodes example_run_refuse
        example_clock_def)
  then show ?thesis by (simp add: n)
qed

lemma example_negative_page:
  "write_image (fst example_run) (snd example_run) (- 1) ''png''
     = (Inr [''runs'', example_clock, ''pages'', ''page_-001.png''],
        (logged (Open [''runs'', example_clock, ''pages'', ''page_-001.png'']) (snd example_run))
          \<lparr>nodes := (nodes (snd example_run))
             ([''runs'', example_clock, ''pages'', ''page_-001.png''] \<mapsto> File ''png'')\<rparr>)"
  using write_image_any_index [of "fst example_run" "[''runs'', example_clock, ''pages'']"
      "snd example_run" "- 1" "''png''"]
  by (simp add: example_run_fields example_names example_negative_page_file)

text \<open>
  C5 (as amended). A batch identifier of invalid shape makes \<^verbatim>\<open>write_prompt\<close> and
  \<^verbatim>\<open>write_response\<close> raise a \<^verbatim>\<open>ValueError\<close>, and a range with \<open>start > end\<close> makes
  \<^verbatim>\<open>create_batch\<close> raise one, each before any system call: the filesystem and its log
  are unchanged, so no directory is created. \<^verbatim>\<open>write_image\<close> has no check of its own:
  on an initialised gateway every integer index that Python can convert to a string (at
  most 4300 digits, by default), a negative one too, is formatted into the file name and
  the outcome is the outcome of writing that file.
\<close>

theorem validation_before_mutation:
  "((batch_id = [] \<or> CHR ''-'' \<notin> set batch_id
       \<or> (\<exists>ch \<in> set batch_id. ch \<notin> set ''0123456789-'')) \<longrightarrow>
      (\<exists>msg. write_prompt self fs batch_id content_md = (Inl (ValueError msg), fs)
             \<and> write_response dumps self fs batch_id response_json = (Inl (ValueError msg), fs)))
   \<and> (start_page_index > end_page_index \<longrightarrow>
        create_batch self fs start_page_index end_page_index
          = (Inl (ValueError ''start_page_index must be <= end_page_index''), fs))
   \<and> (pages_dir self = Some pd \<and> str_digits page_index \<le> int_max_str_digits \<longrightarrow>
        write_image self fs page_index data
          = (case write_file fs (pd @ [page_name page_index]) data of
               (Inl e, fs1) \<Rightarrow> (Inl e, fs1)
             | (Inr u, fs1) \<Rightarrow> (Inr (pd @ [page_name page_index]), fs1)))"
proof (intro conjI impI)
  assume "batch_id = [] \<or> CHR ''-'' \<notin> set batch_id
       \<or> (\<exists>ch \<in> set batch_id. ch \<notin> set ''0123456789-'')"
  then have "validate_batch_id batch_id \<noteq> None"
    unfolding validate_batch_id_None allowed_def by blast
  then obtain m where "validate_batch_id batch_id = Some (ValueError m)"
    using validate_batch_id_Some by blast
  then show "\<exists>msg. write_prompt self fs batch_id content_md = (Inl (ValueError msg), fs)
             \<and> write_response dumps self fs batch_id response_json = (Inl (ValueError msg), fs)"
    by (simp add: write_prompt_def write_response_def)
next
  assume "start_page_index > end_page_index"
  then show "create_batch self fs start_page_index end_page_index
          = (Inl (ValueError ''start_page_index must be <= end_page_index''), fs)"
    by (simp add: create_batch_def)
next
  assume "pages_dir self = Some pd \<and> str_digits page_index \<le> int_max_str_digits"
  then have "pages_dir self = Some pd" by simp
  then show "write_image self fs page_index data
          = (case write_file fs (pd @ [page_name page_index]) data of
               (Inl e, fs1) \<Rightarrow> (Inl e, fs1)
             | (Inr u, fs1) \<Rightarrow> (Inr (pd @ [page_name page_index]), fs1))"
    by (rule write_image_any_index)
qed

theorem validation_before_mutation_witness:
  "(\<exists>ch \<in> set ''a/b''. ch \<notin> set ''0123456789-'')
   \<and> (\<exists>msg. write_prompt (fst example_run) (snd example_run) ''a/b'' ''# prompt''
               = (Inl (ValueError msg), snd example_run))
   \<and> (1::int) < 2
   \<and> create_batch (fst example_run) (snd example_run) 2 1
       = (Inl (ValueError ''start_page_index must be <= end_page_index''), snd example_run)
   \<and> pages_dir (fst example_run) = Some [''runs'', example_clock, ''pages'']
   \<and> str_digits (- 1) \<le> int_max_str_digits
   \<and> fst (write_image (fst example_run) (snd example_run) (- 1) ''png'')
       = Inr [''runs'', example_clock, ''pages'', ''page_-001.png'']"
proof -
  have h1: "\<exists>ch \<in> set ''a/b''. ch \<notin> set ''0123456789-''" by simp
  then have h1': "''a/b'' = [] \<or> CHR ''-'' \<notin> set ''a/b''
       \<or> (\<exists>ch \<in> set ''a/b''. ch \<notin> set ''0123456789-'')" by blast
  have h2: "(1::int) < 2" by simp
  have h3: "pages_dir (fst example_run) = Some [''runs'', example_clock, ''pages'']"
    by (simp add: example_run_fields)
  note t = validation_before_mutation [where batch_id = "''a/b''" and self = "fst example_run"
      and fs = "snd example_run" and content_md = "''# prompt''" and dumps = example_dumps
      and response_json = "''{}''" and start_page_index = 2 and end_page_index = 1
      and pd = "[''runs'', example_clock, ''pages'']" and page_index = "- 1" and data = "''png''"]
  from t [THEN conjunct1, rule_format, OF h1']
  have a: "\<exists>msg. write_prompt (fst example_run) (snd example_run) ''a/b'' ''# prompt''
               = (Inl (ValueError msg), snd example_run)" by blast
  from t [THEN conjunct2, THEN conjunct1, rule_format, OF h2]
  have b: "create_batch (fst example_run) (snd example_run) 2 1
       = (Inl (ValueError ''start_page_index must be <= end_page_index''), snd example_run)" .
  have h4: "str_digits (- 1) \<le> int_max_str_digits"
    by (simp add: str_digits_def int_max_str_digits_def str_nat.simps)
  note c = t [THEN conjunct2, THEN conjunct2, rule_format, OF conjI [OF h3 h4]]
  have d: "fst (write_image (fst example_run) (snd example_run) (- 1) ''png'')
       = Inr [''runs'', example_clock, ''pages'', ''page_-001.png'']"
    using c by (simp add: example_names example_negative_page_file)
  from h1 a h2 b h3 h4 d show ?thesis by (intro conjI)
qed

text \<open>
  The claim as first stated has \<^verbatim>\<open>write_image\<close> reject a malformed page index. It does
  not: with the index \<open>-1\<close> it returns the path of \<^verbatim>\<open>page_-001.png\<close> and the file,
  absent before, is on the disk afterwards.
\<close>

theorem validation_before_mutation_counterexample:
  "fst (write_image (fst example_run) (snd example_run) (- 1) ''png'')
     = Inr [''runs'', example_clock, ''pages'', ''page_-001.png'']
   \<and> nodes (snd (write_image (fst example_run) (snd example_run) (- 1) ''png''))
        [''runs'', example_clock, ''pages'', ''page_-001.png''] = Some (File ''png'')
   \<and> nodes (snd example_run) [''runs'', example_clock, ''pages'', ''page_-001.png''] = None"
  by (simp add: example_negative_page example_run_nodes example_clock_def)

subsection \<open>Page file names and their order\<close>

text \<open>
  C6 (as amended). For page indices \<open>i\<close> and \<open>j\<close> from 0 to 9999, the file name
  \<^verbatim>\<open>page_{i:04d}.png\<close> is smaller than \<^verbatim>\<open>page_{j:04d}.png\<close> in the order of strings
  exactly when \<open>i < j\<close>: up to four digits, the names sort as the numbers do. The order
  of strings is the lexicographic order on character codes, which is Python's.
\<close>

theorem page_names_ordered:
  assumes "0 \<le> i" "i \<le> 9999" "0 \<le> j" "j \<le> 9999"
  shows "page_name i < page_name j \<longleftrightarrow> i < j"
proof -
  have a: "nat i < 10000" "nat j < 10000" using assms by simp_all
  have "page_name i < page_name j \<longleftrightarrow> nat i < nat j"
    unfolding page_name_def fmt04d_four_digits [OF assms(1,2)] fmt04d_four_digits [OF assms(3,4)]
    using four_digits_order [OF a]
    by (simp add: digit_char_less digit_char_eq)
  then show ?thesis using assms by auto
qed

theorem page_names_ordered_witness:
  "(0::int) \<le> 9 \<and> (9::int) \<le> 9999 \<and> (0::int) \<le> 10 \<and> (10::int) \<le> 9999
   \<and> page_name 9 < page_name 10 \<and> (9::int) < 10"
proof -
  have h: "(0::int) \<le> 9" "(9::int) \<le> 9999" "(0::int) \<le> 10" "(10::int) \<le> 9999"
    by simp_all
  from page_names_ordered [OF h] show ?thesis by simp
qed

text \<open>
  Beyond four digits the width is no longer fixed and the claim fails: page 9999 comes
  before page 10000, and \<^verbatim>\<open>page_9999.png\<close> sorts after \<^verbatim>\<open>page_10000.png\<close>.
\<close>

theorem page_names_ordered_counterexample:
  "(0::int) \<le> 9999 \<and> (9999::int) < 10000 \<and> \<not> page_name 9999 < page_name 10000"
  by (simp add: example_names)

subsection \<open>Accepted identifiers and the run directory\<close>

text \<open>
  C1. In every state a client can reach from a freshly constructed gateway, once the run
  directory is set, for every \<open>batch_id\<close> the safety check accepts: joining the batches
  directory with \<open>batch_id\<close> appends exactly one component, \<open>batch_id\<close> itself; the
  joined path, once walked, lies strictly below the run directory; every path that
  \<^verbatim>\<open>write_prompt\<close> or \<^verbatim>\<open>write_response\<close> hands to a system call lies strictly below the
  run directory; and every file or directory they change does. Paths are walked lexically
  (symbolic links are outside the model).
\<close>

theorem accepted_id_stays_in_run_dir:
  assumes "perform_all dumps (init_storage base pdf, fs0) rs = (self, fs)"
    and "validate_batch_id batch_id = None"
    and "run_dir self = Some rd"
  shows "batches_dir self = Some (rd @ [''batches''])
       \<and> truediv (rd @ [''batches'']) batch_id = rd @ [''batches'', batch_id]
       \<and> inside rd (truediv (rd @ [''batches'']) batch_id)
       \<and> (\<forall>c \<in> set (drop (length (calls fs))
                         (calls (snd (write_prompt self fs batch_id content_md)))).
             \<forall>p \<in> set (touched c). inside rd p)
       \<and> (\<forall>c \<in> set (drop (length (calls fs))
                         (calls (snd (write_response dumps self fs batch_id response_json)))).
             \<forall>p \<in> set (touched c). inside rd p)
       \<and> (\<forall>q. nodes (snd (write_prompt self fs batch_id content_md)) q \<noteq> nodes fs q \<longrightarrow>
              strict_prefix (normpath rd) q)
       \<and> (\<forall>q. nodes (snd (write_response dumps self fs batch_id response_json)) q \<noteq> nodes fs q \<longrightarrow>
              strict_prefix (normpath rd) q)"
proof -
  have "laid_out (fst (perform_all dumps (init_storage base pdf, fs0) rs))"
    by (rule laid_out_perform_all) (simp add: laid_out_init)
  with assms(1,3) have bd: "batches_dir self = Some (rd @ [''batches''])"
    by (simp add: laid_out_def)
  note comp = accepted_component [OF assms(2)]
  have j: "truediv (rd @ [''batches'']) batch_id = rd @ [''batches'', batch_id]"
    using truediv_accepted [OF assms(2), of "rd @ [''batches'']"] by simp
  have in_dir: "inside rd (rd @ [''batches'', batch_id])"
    using comp(3) by (intro inside_below) auto
  have in_prompt: "inside rd (rd @ [''batches'', batch_id, ''prompt.md''])"
    using comp(3) by (intro inside_below) auto
  have in_response: "inside rd (rd @ [''batches'', batch_id, ''response.json''])"
    using comp(3) by (intro inside_below) auto
  note pe = write_prompt_effect [OF assms(2) bd, where fs = fs and content_md = content_md]
  note re = write_response_effect [OF assms(2) bd, where fs = fs and dumps = dumps
      and response_json = response_json]
  have cp: "\<forall>c \<in> set (drop (length (calls fs))
                         (calls (snd (write_prompt self fs batch_id content_md)))).
             \<forall>p \<in> set (touched c). inside rd p"
    using pe(1) in_dir in_prompt by auto
  have cr: "\<forall>c \<in> set (drop (length (calls fs))
                         (calls (snd (write_response dumps self fs batch_id response_json)))).
             \<forall>p \<in> set (touched c). inside rd p"
    using re(1) in_dir in_response by auto
  have np: "\<forall>q. nodes (snd (write_prompt self fs batch_id content_md)) q \<noteq> nodes fs q \<longrightarrow>
              strict_prefix (normpath rd) q"
    using pe(2) in_prompt by (auto simp: inside_def)
  have nr: "\<forall>q. nodes (snd (write_response dumps self fs batch_id response_json)) q \<noteq> nodes fs q \<longrightarrow>
              strict_prefix (normpath rd) q"
    using re(2) in_response by (auto simp: inside_def)
  from bd j in_dir cp cr np nr show ?thesis
    unfolding j by (intro conjI)
qed

theorem accepted_id_stays_in_run_dir_witness:
  "perform_all example_dumps (init_storage [''runs''] [''data'', ''plan.pdf''], example_fs)
       [CreateRunDir example_clock] = (fst example_run, snd example_run)
   \<and> validate_batch_id ''0000-0002'' = None
   \<and> run_dir (fst example_run) = Some [''runs'', example_clock]
   \<and> batches_dir (fst example_run) = Some [''runs'', example_clock, ''batches'']
   \<and> truediv [''runs'', example_clock, ''batches''] ''0000-0002''
       = [''runs'', example_clock, ''batches'', ''0000-0002'']
   \<and> inside [''runs'', example_clock] [''runs'', example_clock, ''batches'', ''0000-0002'']
   \<and> validate_batch_id ''../../../etc'' \<noteq> None
   \<and> \<not> inside [''runs'', example_clock]
         (truediv [''runs'', example_clock, ''batches''] ''../../../etc'')"
proof -
  have h1: "perform_all example_dumps (init_storage [''runs''] [''data'', ''plan.pdf''], example_fs)
       [CreateRunDir example_clock] = (fst example_run, snd example_run)"
    by (simp add: perform_all_def example_run_def example_storage_def)
  have h2: "validate_batch_id ''0000-0002'' = None"
    by (simp add: validate_batch_id_def allowed_def)
  have h3: "run_dir (fst example_run) = Some [''runs'', example_clock]"
    by (simp add: example_run_fields)
  note t = accepted_id_stays_in_run_dir [OF h1 h2 h3]
  note t1 = t [THEN conjunct1]
  note t2 = t [THEN conjunct2, THEN conjunct1]
  note t3 = t [THEN conjunct2, THEN conjunct2, THEN conjunct1]
  have r: "validate_batch_id ''../../../etc'' \<noteq> None"
    by (simp add: validate_batch_id_def allowed_def)
  have e: "\<not> inside [''runs'', example_clock]
         (truediv [''runs'', example_clock, ''batches''] ''../../../etc'')"
    by (simp add: inside_def normpath_def truediv_def parse_parts_def example_clock_def)
  from h1 h2 h3 t1 t2 t3 r e show ?thesis by simp
qed

end
